theory Spec2Isabelle
  imports Main "HOL-Library.Word"
begin

section \<open>Data model\<close>

text \<open>
  The rollout runner of \<^verbatim>\<open>internal/statemachine\<close> works on the structs of the Google
  Compute client library. Each struct is a record holding the fields the runner reads or
  writes. A field that is a Go pointer to a nested struct, and that the provider may leave
  out of a response, is an \<open>option\<close>: \<open>None\<close> is the nil pointer, and reading through it
  panics. Go's \<^verbatim>\<open>int64\<close> is a 64-bit word read as two's complement (\<open>sint\<close>).
\<close>

type_synonym int64 = "64 word"

record RegionOrZone =
  Region :: string
  Zone :: string

record FixedOrPercent =
  Fixed :: int64
  Percent :: int64

record InstanceGroupManagerVersion =
  Name :: string
  InstanceTemplate :: string
  TargetSize :: "FixedOrPercent option"

record DistributionPolicy =
  Zones :: "string list"

record InstanceGroupManagerStatusVersionTarget =
  IsReached :: bool

record InstanceGroupManagerStatus =
  IsStable :: bool
  VersionTarget :: "InstanceGroupManagerStatusVersionTarget option"

record InstanceGroupManagerUpdatePolicy =
  policy_Type :: string
  MaxSurge :: "FixedOrPercent option"
  MaxUnavailable :: "FixedOrPercent option"

record InstanceGroupManager =
  SelfLink :: string
  mig_TargetSize :: int64
  Versions :: "InstanceGroupManagerVersion list"
  mig_DistributionPolicy :: "DistributionPolicy option"
  Status :: "InstanceGroupManagerStatus option"
  UpdatePolicy :: "InstanceGroupManagerUpdatePolicy option"

record InstanceTemplate =
  template_SelfLink :: string

record ManagedInstanceVersion =
  instance_InstanceTemplate :: string
  instance_version_Name :: string

record ManagedInstance =
  Instance :: string
  Version :: "ManagedInstanceVersion option"

record HealthStatus =
  HealthState :: string
  health_Instance :: string

record BackendServiceGroupHealth =
  health_HealthStatus :: "HealthStatus list"

record Backend =
  Group :: string

record BackendService =
  backend_Name :: string
  backend_Region :: string
  Backends :: "Backend list"

text \<open>
  Errors are values. The constructors follow the taxonomy of the specification; the Go
  code builds each of them with \<^verbatim>\<open>errors.New\<close>, \<^verbatim>\<open>errors.Errorf\<close> or
  \<^verbatim>\<open>errors.Wrap\<close>:
  \<^item> \<open>LocationError\<close>: "must specify either region or zone";
  \<^item> \<open>APIError\<close>: whatever the provider's client returns, kept opaque;
  \<^item> \<open>Wrapped msg e\<close>: \<^verbatim>\<open>errors.Wrap(e, msg)\<close>;
  \<^item> \<open>NotFoundError\<close>: "could not find backend service containing the specified instance group";
  \<^item> \<open>AmbiguousPrimaryError a b\<close>: "found two non-canary templates: 'a' and 'b', ...";
  \<^item> \<open>MissingPrimaryError\<close>: "could not find primary (non-canary) template";
  \<^item> \<open>StabilityTimeoutError n\<close>: "cluster did not become stable within n ticks";
  \<^item> \<open>UnhealthyCanaryError i\<close>: "found unhealthy canary instance in backend service: 'i'".
  A call ends in \<open>Ok\<close> with its value, in \<open>Err\<close> with the error it returns, or in
  \<open>Panic\<close> when it dereferences a nil pointer.
\<close>

datatype error =
    LocationError
  | APIError string
  | Wrapped string error
  | NotFoundError
  | AmbiguousPrimaryError string string
  | MissingPrimaryError
  | StabilityTimeoutError nat
  | UnhealthyCanaryError string

datatype 'a result = Ok 'a | Err error | Panic

record clusterInfo =
  group :: InstanceGroupManager
  template :: InstanceTemplate
  backend :: BackendService

section \<open>The adapter interface and the runner\<close>

text \<open>
  The interface \<^verbatim>\<open>computeAPI\<close> is a record of operations over a state \<open>'w\<close> of the
  provider (or of a test double): each operation takes the state and returns its result
  with the state after the call. The injected \<^verbatim>\<open>sleepFunc\<close> acts on the same state.
  The context argument and the log lines have no part in any result and are left out.
\<close>

record 'w computeAPI =
  api_GetMIG ::
    "string \<Rightarrow> RegionOrZone \<Rightarrow> string \<Rightarrow> 'w \<Rightarrow> InstanceGroupManager result \<times> 'w"
  api_GetMIGInstances ::
    "string \<Rightarrow> RegionOrZone \<Rightarrow> string \<Rightarrow> 'w \<Rightarrow> ManagedInstance list result \<times> 'w"
  api_PatchMIG ::
    "string \<Rightarrow> RegionOrZone \<Rightarrow> string \<Rightarrow> InstanceGroupManager \<Rightarrow> 'w \<Rightarrow> unit result \<times> 'w"
  api_GetInstanceTemplate ::
    "string \<Rightarrow> string \<Rightarrow> 'w \<Rightarrow> InstanceTemplate result \<times> 'w"
  api_FindBackendServiceWithMIG ::
    "string \<Rightarrow> InstanceGroupManager \<Rightarrow> 'w \<Rightarrow> BackendService result \<times> 'w"
  api_GetBackendServiceGroupHealth ::
    "string \<Rightarrow> BackendService \<Rightarrow> InstanceGroupManager \<Rightarrow> 'w
       \<Rightarrow> BackendServiceGroupHealth result \<times> 'w"

definition tickInterval :: nat where
  "tickInterval = 60"

definition maxTicks :: nat where
  "maxTicks = 60"

record 'w Runner =
  computeAPI :: "'w computeAPI"
  sleepFunc :: "nat \<Rightarrow> 'w \<Rightarrow> 'w"
  projectID :: string
  location :: RegionOrZone
  migName :: string
  templateName :: string

section \<open>Scaling\<close>

text \<open>
  The loop over \<^verbatim>\<open>info.group.Versions\<close> at the head of \<^verbatim>\<open>scale\<close>. The pair carried
  along is (\<^verbatim>\<open>primaryTemplate\<close>, \<^verbatim>\<open>oldCanarySize\<close>). A version running the target
  template has its \<^verbatim>\<open>TargetSize.Fixed\<close> read, which panics on a nil \<^verbatim>\<open>TargetSize\<close>.
\<close>

fun scan_versions ::
  "string \<Rightarrow> InstanceGroupManagerVersion list \<Rightarrow> string \<times> int64 \<Rightarrow> (string \<times> int64) result"
where
  "scan_versions selfLink [] (primaryTemplate, oldCanarySize) =
     Ok (primaryTemplate, oldCanarySize)"
| "scan_versions selfLink (version # rest) (primaryTemplate, oldCanarySize) =
     (if InstanceTemplate version = selfLink then
        (case TargetSize version of
           None \<Rightarrow> Panic
         | Some target \<Rightarrow>
             scan_versions selfLink rest
               (primaryTemplate, if 0 < sint (Fixed target) then Fixed target else oldCanarySize))
      else if Name version \<noteq> ''canary'' then
        (if primaryTemplate \<noteq> '''' then
           Err (AmbiguousPrimaryError primaryTemplate (InstanceTemplate version))
         else scan_versions selfLink rest (InstanceTemplate version, oldCanarySize))
      else scan_versions selfLink rest (primaryTemplate, oldCanarySize))"

text \<open>
  Everything \<^verbatim>\<open>scale\<close> computes before it calls the adapter: the two canary sizes and
  the patch. \<open>plan_newCanarySize\<close> is the variable \<^verbatim>\<open>newCanarySize\<close> as it stands when
  the patch is built, after the clamp to the fleet's target size. \<open>build_plan\<close> is the
  code after the loop; \<open>scale_plan\<close> runs the loop and then \<open>build_plan\<close>.
\<close>

record scalePlan =
  plan_primaryTemplate :: string
  plan_oldCanarySize :: int64
  plan_newCanarySize :: int64
  plan_patch :: InstanceGroupManager

definition double_canary :: "int64 \<Rightarrow> int64" where
  "double_canary oldCanarySize = (if oldCanarySize = 0 then 1 else oldCanarySize * 2)"

definition collapsed_versions :: "string \<Rightarrow> InstanceGroupManagerVersion list" where
  "collapsed_versions selfLink =
     [\<lparr>Name = '''', InstanceTemplate = selfLink, TargetSize = None\<rparr>]"

definition split_versions ::
  "string \<Rightarrow> string \<Rightarrow> int64 \<Rightarrow> InstanceGroupManagerVersion list" where
  "split_versions primaryTemplate selfLink newCanarySize =
     [\<lparr>Name = '''', InstanceTemplate = primaryTemplate, TargetSize = None\<rparr>,
      \<lparr>Name = ''canary'', InstanceTemplate = selfLink,
       TargetSize = Some \<lparr>Fixed = newCanarySize, Percent = 0\<rparr>\<rparr>]"

definition make_patch ::
  "InstanceGroupManagerVersion list \<Rightarrow> int64 \<Rightarrow> int64 \<Rightarrow> InstanceGroupManager" where
  "make_patch versions maxSurge maxUnavailable =
     \<lparr>SelfLink = '''', mig_TargetSize = 0, Versions = versions,
      mig_DistributionPolicy = None, Status = None,
      UpdatePolicy = Some
        \<lparr>policy_Type = ''PROACTIVE'',
         MaxSurge = Some \<lparr>Fixed = maxSurge, Percent = 0\<rparr>,
         MaxUnavailable = Some \<lparr>Fixed = maxUnavailable, Percent = 0\<rparr>\<rparr>\<rparr>"

definition build_plan :: "clusterInfo \<Rightarrow> string \<Rightarrow> int64 \<Rightarrow> scalePlan result" where
  "build_plan info primaryTemplate oldCanarySize =
     (let selfLink = template_SelfLink (template info);
          targetSize = mig_TargetSize (group info)
      in if primaryTemplate = '''' then Err MissingPrimaryError
         else
           let doubled = double_canary oldCanarySize;
               newCanarySize =
                 (if sint targetSize \<le> sint doubled then targetSize else doubled);
               versions =
                 (if sint targetSize \<le> sint doubled then collapsed_versions selfLink
                  else split_versions primaryTemplate selfLink doubled)
           in (case mig_DistributionPolicy (group info) of
                 None \<Rightarrow> Panic
               | Some policy \<Rightarrow>
                   (let zones = (of_nat (length (Zones policy)) :: int64);
                        maxSurge = newCanarySize - oldCanarySize;
                        maxUnavailable = 0
                    in Ok \<lparr>plan_primaryTemplate = primaryTemplate,
                           plan_oldCanarySize = oldCanarySize,
                           plan_newCanarySize = newCanarySize,
                           plan_patch =
                             make_patch versions
                               (if sint maxSurge < sint zones then zones else maxSurge)
                               maxUnavailable\<rparr>)))"

definition scale_plan :: "clusterInfo \<Rightarrow> scalePlan result" where
  "scale_plan info =
     (case scan_versions (template_SelfLink (template info)) (Versions (group info))
             ('''', 0) of
        Panic \<Rightarrow> Panic
      | Err e \<Rightarrow> Err e
      | Ok (primaryTemplate, oldCanarySize) \<Rightarrow>
          build_plan info primaryTemplate oldCanarySize)"

definition scale :: "'w Runner \<Rightarrow> clusterInfo \<Rightarrow> 'w \<Rightarrow> unit result \<times> 'w" where
  "scale r info w =
     (case scale_plan info of
        Panic \<Rightarrow> (Panic, w)
      | Err e \<Rightarrow> (Err e, w)
      | Ok plan \<Rightarrow>
          (case api_PatchMIG (computeAPI r) (projectID r) (location r) (migName r)
                  (plan_patch plan) w of
             (Err e, w') \<Rightarrow>
               (Err (Wrapped ''error updating instance templates in instance group'' e), w')
           | (other, w') \<Rightarrow> (other, w')))"

section \<open>Waiting for stability\<close>

text \<open>
  The condition \<^verbatim>\<open>refreshedGroup.Status.IsStable && refreshedGroup.Status.VersionTarget.IsReached\<close>:
  \<^verbatim>\<open>Status\<close> is read first, and \<^verbatim>\<open>VersionTarget\<close> only when \<^verbatim>\<open>IsStable\<close> holds.
\<close>

definition stable_and_reached :: "InstanceGroupManager \<Rightarrow> bool result" where
  "stable_and_reached refreshedGroup =
     (case Status refreshedGroup of
        None \<Rightarrow> Panic
      | Some status \<Rightarrow>
          if IsStable status then
            (case VersionTarget status of
               None \<Rightarrow> Panic
             | Some versionTarget \<Rightarrow> Ok (IsReached versionTarget))
          else Ok False)"

text \<open>
  The loop \<^verbatim>\<open>for ticks := 0; ticks < maxTicks; ticks++\<close> of \<^verbatim>\<open>waitUntilStable\<close>,
  from any value of \<^verbatim>\<open>ticks\<close>.
\<close>

function wait_loop ::
  "'w Runner \<Rightarrow> clusterInfo \<Rightarrow> nat \<Rightarrow> 'w \<Rightarrow> clusterInfo result \<times> 'w"
where
  "wait_loop r info ticks w =
     (if ticks < maxTicks then
        (case api_GetMIG (computeAPI r) (projectID r) (location r) (migName r) w of
           (Panic, w') \<Rightarrow> (Panic, w')
         | (Err e, w') \<Rightarrow> (Err e, w')
         | (Ok refreshedGroup, w') \<Rightarrow>
             (case stable_and_reached refreshedGroup of
                Panic \<Rightarrow> (Panic, w')
              | Err e \<Rightarrow> (Err e, w')
              | Ok True \<Rightarrow>
                  (Ok \<lparr>group = refreshedGroup, template = template info,
                       backend = backend info\<rparr>, w')
              | Ok False \<Rightarrow> wait_loop r info (Suc ticks) (sleepFunc r tickInterval w')))
      else (Err (StabilityTimeoutError maxTicks), w))"
  by pat_completeness auto
termination
  by (relation "measure (\<lambda>(r, info, ticks, w). maxTicks - ticks)") auto

declare wait_loop.simps [simp del]

definition waitUntilStable ::
  "'w Runner \<Rightarrow> clusterInfo \<Rightarrow> 'w \<Rightarrow> clusterInfo result \<times> 'w" where
  "waitUntilStable r info w = wait_loop r info 0 w"

section \<open>The health gate\<close>

text \<open>
  The map \<^verbatim>\<open>isUnhealthy\<close> is a function to \<open>bool\<close>: a Go map read at a missing key
  gives \<^verbatim>\<open>false\<close>.
\<close>

fun mark_unhealthy :: "HealthStatus list \<Rightarrow> (string \<Rightarrow> bool) \<Rightarrow> (string \<Rightarrow> bool)" where
  "mark_unhealthy [] isUnhealthy = isUnhealthy"
| "mark_unhealthy (healthStatus # rest) isUnhealthy =
     mark_unhealthy rest
       (if HealthState healthStatus = ''UNHEALTHY''
        then isUnhealthy(health_Instance healthStatus := True)
        else isUnhealthy)"

fun check_instances ::
  "string \<Rightarrow> (string \<Rightarrow> bool) \<Rightarrow> ManagedInstance list \<Rightarrow> unit result" where
  "check_instances selfLink isUnhealthy [] = Ok ()"
| "check_instances selfLink isUnhealthy (instance # rest) =
     (case Version instance of
        None \<Rightarrow> Panic
      | Some version \<Rightarrow>
          if instance_InstanceTemplate version = selfLink \<and> isUnhealthy (Instance instance)
          then Err (UnhealthyCanaryError (Instance instance))
          else check_instances selfLink isUnhealthy rest)"

definition checkBackendServiceHealth ::
  "'w Runner \<Rightarrow> clusterInfo \<Rightarrow> 'w \<Rightarrow> unit result \<times> 'w" where
  "checkBackendServiceHealth r info w =
     (case api_GetBackendServiceGroupHealth (computeAPI r) (projectID r)
             (backend info) (group info) w of
        (Panic, w') \<Rightarrow> (Panic, w')
      | (Err e, w') \<Rightarrow> (Err e, w')
      | (Ok healthResponse, w') \<Rightarrow>
          (let isUnhealthy =
                 mark_unhealthy (health_HealthStatus healthResponse) (\<lambda>instance. False)
           in case api_GetMIGInstances (computeAPI r) (projectID r) (location r)
                     (migName r) w' of
                (Panic, w'') \<Rightarrow> (Panic, w'')
              | (Err e, w'') \<Rightarrow> (Err e, w'')
              | (Ok instances, w'') \<Rightarrow>
                  (check_instances (template_SelfLink (template info)) isUnhealthy instances,
                   w'')))"

section \<open>Collecting the cluster information\<close>

definition getInfo :: "'w Runner \<Rightarrow> 'w \<Rightarrow> clusterInfo result \<times> 'w" where
  "getInfo r w =
     (case api_GetMIG (computeAPI r) (projectID r) (location r) (migName r) w of
        (Panic, w1) \<Rightarrow> (Panic, w1)
      | (Err e, w1) \<Rightarrow> (Err e, w1)
      | (Ok group', w1) \<Rightarrow>
          (case api_GetInstanceTemplate (computeAPI r) (projectID r) (templateName r) w1 of
             (Panic, w2) \<Rightarrow> (Panic, w2)
           | (Err e, w2) \<Rightarrow> (Err e, w2)
           | (Ok template', w2) \<Rightarrow>
               (case api_FindBackendServiceWithMIG (computeAPI r) (projectID r) group' w2 of
                  (Panic, w3) \<Rightarrow> (Panic, w3)
                | (Err e, w3) \<Rightarrow> (Err e, w3)
                | (Ok backend', w3) \<Rightarrow>
                    (Ok \<lparr>group = group', template = template', backend = backend'\<rparr>, w3))))"

section \<open>The adapter over the provider's client\<close>

text \<open>
  \<^verbatim>\<open>googleComputeAPI\<close> implements the interface over \<^verbatim>\<open>compute.Service\<close>. The client
  is a record of the remote calls the adapter makes, over a state \<open>'n\<close> of the network:
  a remote call returns its result and the state after it, so that a call that was made
  can be told from one that was not. A paged listing returns the pages that arrived and
  the error that ended the paging, if one did.
\<close>

record BackendServicesScopedList =
  BackendServices :: "BackendService list"

record BackendServiceAggregatedList =
  Items :: "(string \<times> BackendServicesScopedList) list"

record 'n computeService =
  RegionInstanceGroupManagers_Get ::
    "string \<Rightarrow> string \<Rightarrow> string \<Rightarrow> 'n \<Rightarrow> InstanceGroupManager result \<times> 'n"
  InstanceGroupManagers_Get ::
    "string \<Rightarrow> string \<Rightarrow> string \<Rightarrow> 'n \<Rightarrow> InstanceGroupManager result \<times> 'n"
  RegionInstanceGroupManagers_ListManagedInstances ::
    "string \<Rightarrow> string \<Rightarrow> string \<Rightarrow> 'n \<Rightarrow> (ManagedInstance list list \<times> error option) \<times> 'n"
  InstanceGroupManagers_ListManagedInstances ::
    "string \<Rightarrow> string \<Rightarrow> string \<Rightarrow> 'n \<Rightarrow> (ManagedInstance list list \<times> error option) \<times> 'n"
  RegionInstanceGroupManagers_Patch ::
    "string \<Rightarrow> string \<Rightarrow> string \<Rightarrow> InstanceGroupManager \<Rightarrow> 'n \<Rightarrow> unit result \<times> 'n"
  InstanceGroupManagers_Patch ::
    "string \<Rightarrow> string \<Rightarrow> string \<Rightarrow> InstanceGroupManager \<Rightarrow> 'n \<Rightarrow> unit result \<times> 'n"
  InstanceTemplates_Get ::
    "string \<Rightarrow> string \<Rightarrow> 'n \<Rightarrow> InstanceTemplate result \<times> 'n"
  BackendServices_AggregatedList ::
    "string \<Rightarrow> 'n \<Rightarrow> (BackendServiceAggregatedList list \<times> error option) \<times> 'n"
  RegionBackendServices_GetHealth ::
    "string \<Rightarrow> string \<Rightarrow> string \<Rightarrow> string \<Rightarrow> 'n \<Rightarrow> BackendServiceGroupHealth result \<times> 'n"
  BackendServices_GetHealth ::
    "string \<Rightarrow> string \<Rightarrow> string \<Rightarrow> 'n \<Rightarrow> BackendServiceGroupHealth result \<times> 'n"

text \<open>\<^verbatim>\<open>if err != nil { return nil, errors.Wrap(err, msg) }\<close> after a call.\<close>

definition wrap_error :: "string \<Rightarrow> 'a result \<Rightarrow> 'a result" where
  "wrap_error msg res = (case res of Err e \<Rightarrow> Err (Wrapped msg e) | other \<Rightarrow> other)"

definition GetMIG ::
  "'n computeService \<Rightarrow> string \<Rightarrow> RegionOrZone \<Rightarrow> string \<Rightarrow> 'n
     \<Rightarrow> InstanceGroupManager result \<times> 'n" where
  "GetMIG g project loc name n =
     (case (if Region loc \<noteq> '''' then
              RegionInstanceGroupManagers_Get g project (Region loc) name n
            else if Zone loc \<noteq> '''' then
              InstanceGroupManagers_Get g project (Zone loc) name n
            else (Err LocationError, n)) of
        (res, n') \<Rightarrow> (wrap_error ''error retrieving instance group information'' res, n'))"

definition collect_pages :: "'a list list \<times> error option \<Rightarrow> 'a list result" where
  "collect_pages listing =
     (case snd listing of
        Some e \<Rightarrow> Err e
      | None \<Rightarrow> Ok (concat (fst listing)))"

definition GetMIGInstances ::
  "'n computeService \<Rightarrow> string \<Rightarrow> RegionOrZone \<Rightarrow> string \<Rightarrow> 'n
     \<Rightarrow> ManagedInstance list result \<times> 'n" where
  "GetMIGInstances g project loc name n =
     (case (if Region loc \<noteq> '''' then
              (case RegionInstanceGroupManagers_ListManagedInstances g project (Region loc)
                      name n of
                 (listing, n') \<Rightarrow> (collect_pages listing, n'))
            else if Zone loc \<noteq> '''' then
              (case InstanceGroupManagers_ListManagedInstances g project (Zone loc) name n of
                 (listing, n') \<Rightarrow> (collect_pages listing, n'))
            else (Err LocationError, n)) of
        (res, n') \<Rightarrow> (wrap_error ''error retrieving list of managed instances'' res, n'))"

definition PatchMIG ::
  "'n computeService \<Rightarrow> string \<Rightarrow> RegionOrZone \<Rightarrow> string \<Rightarrow> InstanceGroupManager \<Rightarrow> 'n
     \<Rightarrow> unit result \<times> 'n" where
  "PatchMIG g project loc name patch n =
     (case (if Region loc \<noteq> '''' then
              RegionInstanceGroupManagers_Patch g project (Region loc) name patch n
            else if Zone loc \<noteq> '''' then
              InstanceGroupManagers_Patch g project (Zone loc) name patch n
            else (Err LocationError, n)) of
        (res, n') \<Rightarrow> (wrap_error ''error retrieving instance group information'' res, n'))"

definition GetInstanceTemplate ::
  "'n computeService \<Rightarrow> string \<Rightarrow> string \<Rightarrow> 'n \<Rightarrow> InstanceTemplate result \<times> 'n" where
  "GetInstanceTemplate g project name n =
     (case InstanceTemplates_Get g project name n of
        (res, n') \<Rightarrow> (wrap_error ''error retrieving instance template information'' res, n'))"

text \<open>
  \<^verbatim>\<open>FindBackendServiceWithMIG\<close>. The variable \<^verbatim>\<open>backendService\<close> starts as nil and is
  what the innermost loop ranges over (\<^verbatim>\<open>range backendService.Backends\<close>), not the
  candidate: reading \<^verbatim>\<open>.Backends\<close> through the nil pointer panics. Each function below
  returns the variable and whether the page's callback has returned.
  \<^verbatim>\<open>Items\<close> is a Go map, listed here in the order the runtime iterates it.
\<close>

fun scan_backends :: "string \<Rightarrow> Backend list \<Rightarrow> bool" where
  "scan_backends selfLink [] = False"
| "scan_backends selfLink (entry # rest) =
     (if Group entry = selfLink then True else scan_backends selfLink rest)"

fun scan_candidates ::
  "string \<Rightarrow> BackendService option \<Rightarrow> BackendService list
     \<Rightarrow> (BackendService option \<times> bool) result" where
  "scan_candidates selfLink backendService [] = Ok (backendService, False)"
| "scan_candidates selfLink backendService (candidateBackendService # rest) =
     (case backendService of
        None \<Rightarrow> Panic
      | Some current \<Rightarrow>
          if scan_backends selfLink (Backends current)
          then Ok (Some candidateBackendService, True)
          else scan_candidates selfLink backendService rest)"

fun scan_items ::
  "string \<Rightarrow> BackendService option \<Rightarrow> (string \<times> BackendServicesScopedList) list
     \<Rightarrow> (BackendService option \<times> bool) result" where
  "scan_items selfLink backendService [] = Ok (backendService, False)"
| "scan_items selfLink backendService ((scope, scoped) # rest) =
     (case scan_candidates selfLink backendService (BackendServices scoped) of
        Ok (backendService', False) \<Rightarrow> scan_items selfLink backendService' rest
      | other \<Rightarrow> other)"

fun scan_pages ::
  "string \<Rightarrow> BackendService option \<Rightarrow> BackendServiceAggregatedList list
     \<Rightarrow> BackendService option result" where
  "scan_pages selfLink backendService [] = Ok backendService"
| "scan_pages selfLink backendService (aggregate # rest) =
     (case scan_items selfLink backendService (Items aggregate) of
        Ok (backendService', returned) \<Rightarrow> scan_pages selfLink backendService' rest
      | Err e \<Rightarrow> Err e
      | Panic \<Rightarrow> Panic)"

definition FindBackendServiceWithMIG ::
  "'n computeService \<Rightarrow> string \<Rightarrow> InstanceGroupManager \<Rightarrow> 'n
     \<Rightarrow> BackendService result \<times> 'n" where
  "FindBackendServiceWithMIG g project mig n =
     (case BackendServices_AggregatedList g project n of
        ((pages, err), n') \<Rightarrow>
          (case scan_pages (SelfLink mig) None pages of
             Panic \<Rightarrow> (Panic, n')
           | Err e \<Rightarrow> (Err e, n')
           | Ok backendService \<Rightarrow>
               (case err of
                  Some e \<Rightarrow> (Err (Wrapped ''error listing backend services in project'' e), n')
                | None \<Rightarrow>
                    (case backendService of
                       None \<Rightarrow> (Err NotFoundError, n')
                     | Some found \<Rightarrow> (Ok found, n')))))"

definition GetBackendServiceGroupHealth ::
  "'n computeService \<Rightarrow> string \<Rightarrow> BackendService \<Rightarrow> InstanceGroupManager \<Rightarrow> 'n
     \<Rightarrow> BackendServiceGroupHealth result \<times> 'n" where
  "GetBackendServiceGroupHealth g project backend' mig n =
     (case (if backend_Region backend' \<noteq> '''' then
              RegionBackendServices_GetHealth g project (backend_Region backend')
                (backend_Name backend') (SelfLink mig) n
            else
              BackendServices_GetHealth g project (backend_Name backend') (SelfLink mig) n) of
        (res, n') \<Rightarrow> (wrap_error ''error getting health of backend service group'' res, n'))"

text \<open>The adapter as a value of the interface, as \<^verbatim>\<open>New\<close> installs it in a runner.\<close>

definition googleComputeAPI :: "'n computeService \<Rightarrow> 'n computeAPI" where
  "googleComputeAPI g =
     \<lparr>api_GetMIG = GetMIG g,
      api_GetMIGInstances = GetMIGInstances g,
      api_PatchMIG = PatchMIG g,
      api_GetInstanceTemplate = GetInstanceTemplate g,
      api_FindBackendServiceWithMIG = FindBackendServiceWithMIG g,
      api_GetBackendServiceGroupHealth = GetBackendServiceGroupHealth g\<rparr>"

section \<open>The done-check\<close>

definition isDone :: "clusterInfo \<Rightarrow> bool" where
  "isDone info =
     (case Versions (group info) of
        [v] \<Rightarrow> InstanceTemplate v = template_SelfLink (template info)
      | _ \<Rightarrow> False)"

section \<open>The rollout loop\<close>

text \<open>
  The loop \<^verbatim>\<open>for { ... }\<close> of \<^verbatim>\<open>Start\<close> has no bound of its own: it ends when a step
  fails or the done-check holds. It is a partial function, \<open>None\<close> standing for a run
  that never returns.
\<close>

partial_function (option) rollout_loop ::
  "'w Runner \<Rightarrow> clusterInfo \<Rightarrow> 'w \<Rightarrow> (unit result \<times> 'w) option"
where
  "rollout_loop r info w =
     (case scale r info w of
        (Panic, w1) \<Rightarrow> Some (Panic, w1)
      | (Err e, w1) \<Rightarrow> Some (Err e, w1)
      | (Ok u, w1) \<Rightarrow>
          (case waitUntilStable r info w1 of
             (Panic, w2) \<Rightarrow> Some (Panic, w2)
           | (Err e, w2) \<Rightarrow> Some (Err e, w2)
           | (Ok refreshed, w2) \<Rightarrow>
               (case checkBackendServiceHealth r refreshed w2 of
                  (Panic, w3) \<Rightarrow> Some (Panic, w3)
                | (Err e, w3) \<Rightarrow> Some (Err e, w3)
                | (Ok u', w3) \<Rightarrow>
                    if isDone refreshed then Some (Ok (), w3)
                    else rollout_loop r refreshed w3)))"

definition Start :: "'w Runner \<Rightarrow> 'w \<Rightarrow> (unit result \<times> 'w) option" where
  "Start r w =
     (case getInfo r w of
        (Panic, w0) \<Rightarrow> Some (Panic, w0)
      | (Err e, w0) \<Rightarrow> Some (Err e, w0)
      | (Ok info, w0) \<Rightarrow> rollout_loop r info w0)"

section \<open>Test doubles\<close>

definition empty_group :: InstanceGroupManager where
  "empty_group =
     \<lparr>SelfLink = '''', mig_TargetSize = 0, Versions = [], mig_DistributionPolicy = None,
      Status = None, UpdatePolicy = None\<rparr>"

text \<open>
  A client double whose state counts the remote calls made. A region-scoped call answers
  with a resource named \<open>''regional''\<close>, a zone-scoped one with \<open>''zonal''\<close>; the
  backend listing answers with the given pages.
\<close>

definition counting_service :: "BackendServiceAggregatedList list \<Rightarrow> nat computeService" where
  "counting_service pages =
     \<lparr>RegionInstanceGroupManagers_Get =
        (\<lambda>project region name calls. (Ok (empty_group\<lparr>SelfLink := ''regional''\<rparr>), Suc calls)),
      InstanceGroupManagers_Get =
        (\<lambda>project zone name calls. (Ok (empty_group\<lparr>SelfLink := ''zonal''\<rparr>), Suc calls)),
      RegionInstanceGroupManagers_ListManagedInstances =
        (\<lambda>project region name calls.
           (([[\<lparr>Instance = ''regional'', Version = None\<rparr>]], None), Suc calls)),
      InstanceGroupManagers_ListManagedInstances =
        (\<lambda>project zone name calls.
           (([[\<lparr>Instance = ''zonal'', Version = None\<rparr>]], None), Suc calls)),
      RegionInstanceGroupManagers_Patch =
        (\<lambda>project region name patch calls. (Ok (), Suc calls)),
      InstanceGroupManagers_Patch =
        (\<lambda>project zone name patch calls. (Ok (), Suc calls)),
      InstanceTemplates_Get =
        (\<lambda>project name calls. (Ok \<lparr>template_SelfLink = name\<rparr>, Suc calls)),
      BackendServices_AggregatedList =
        (\<lambda>project calls. ((pages, None), Suc calls)),
      RegionBackendServices_GetHealth =
        (\<lambda>project region name groupRef calls. (Ok \<lparr>health_HealthStatus = []\<rparr>, Suc calls)),
      BackendServices_GetHealth =
        (\<lambda>project name groupRef calls. (Ok \<lparr>health_HealthStatus = []\<rparr>, Suc calls))\<rparr>"

text \<open>
  An adapter double for the runner. Its state counts the fleet fetches and the sleeps and
  keeps the patches it was handed, in order. The \<open>i\<close>-th fetch (from 0) answers
  \<open>script i\<close>; the health lookup and the instance listing answer with fixed values.
\<close>

record fake_world =
  fetches :: nat
  sleeps :: nat
  patches :: "InstanceGroupManager list"

definition fake_api ::
  "(nat \<Rightarrow> InstanceGroupManager result) \<Rightarrow> BackendServiceGroupHealth result
     \<Rightarrow> ManagedInstance list result \<Rightarrow> fake_world computeAPI" where
  "fake_api script health instances =
     \<lparr>api_GetMIG = (\<lambda>project loc name w. (script (fetches w), w\<lparr>fetches := Suc (fetches w)\<rparr>)),
      api_GetMIGInstances = (\<lambda>project loc name w. (instances, w)),
      api_PatchMIG = (\<lambda>project loc name patch w. (Ok (), w\<lparr>patches := patches w @ [patch]\<rparr>)),
      api_GetInstanceTemplate = (\<lambda>project name w. (Ok \<lparr>template_SelfLink = name\<rparr>, w)),
      api_FindBackendServiceWithMIG = (\<lambda>project mig w. (Err NotFoundError, w)),
      api_GetBackendServiceGroupHealth = (\<lambda>project backend' mig w. (health, w))\<rparr>"

definition fake_runner ::
  "(nat \<Rightarrow> InstanceGroupManager result) \<Rightarrow> BackendServiceGroupHealth result
     \<Rightarrow> ManagedInstance list result \<Rightarrow> fake_world Runner" where
  "fake_runner script health instances =
     \<lparr>computeAPI = fake_api script health instances,
      sleepFunc = (\<lambda>duration w. w\<lparr>sleeps := Suc (sleeps w)\<rparr>),
      projectID = ''project'',
      location = \<lparr>Region = ''us-east1'', Zone = ''''\<rparr>,
      migName = ''mig'',
      templateName = ''new''\<rparr>"

definition fresh_world :: fake_world where
  "fresh_world = \<lparr>fetches = 0, sleeps = 0, patches = []\<rparr>"

text \<open>
  A provider double on which stability and health always pass. Its state is the fleet
  and the patches applied so far. A patch takes effect at once: it replaces the fleet's
  version list and update policy, the fields a patch of \<^verbatim>\<open>scale\<close> carries. A fetch
  returns the fleet as stable with its version target reached; no instance is unhealthy.
\<close>

record provider_world =
  fleet :: InstanceGroupManager
  applied :: "InstanceGroupManager list"

definition observed :: "InstanceGroupManager \<Rightarrow> InstanceGroupManager" where
  "observed g =
     g\<lparr>Status := Some \<lparr>IsStable = True, VersionTarget = Some \<lparr>IsReached = True\<rparr>\<rparr>\<rparr>"

definition apply_patch :: "InstanceGroupManager \<Rightarrow> provider_world \<Rightarrow> provider_world" where
  "apply_patch patch w =
     w\<lparr>fleet := (fleet w)\<lparr>Versions := Versions patch, UpdatePolicy := UpdatePolicy patch\<rparr>,
       applied := applied w @ [patch]\<rparr>"

definition sample_backend :: BackendService where
  "sample_backend = \<lparr>backend_Name = ''web'', backend_Region = '''', Backends = []\<rparr>"

definition provider_api :: "provider_world computeAPI" where
  "provider_api =
     \<lparr>api_GetMIG = (\<lambda>project loc name w. (Ok (observed (fleet w)), w)),
      api_GetMIGInstances = (\<lambda>project loc name w. (Ok [], w)),
      api_PatchMIG = (\<lambda>project loc name patch w. (Ok (), apply_patch patch w)),
      api_GetInstanceTemplate = (\<lambda>project name w. (Ok \<lparr>template_SelfLink = name\<rparr>, w)),
      api_FindBackendServiceWithMIG = (\<lambda>project mig w. (Ok sample_backend, w)),
      api_GetBackendServiceGroupHealth =
        (\<lambda>project backend' mig w. (Ok \<lparr>health_HealthStatus = []\<rparr>, w))\<rparr>"

definition provider_runner :: "string \<Rightarrow> provider_world Runner" where
  "provider_runner name =
     \<lparr>computeAPI = provider_api,
      sleepFunc = (\<lambda>duration w. w),
      projectID = ''project'',
      location = \<lparr>Region = ''us-east1'', Zone = ''''\<rparr>,
      migName = ''mig'',
      templateName = name\<rparr>"

text \<open>The cluster information the runner holds when the provider double is in state \<open>w\<close>.\<close>

definition snapshot_of :: "string \<Rightarrow> provider_world \<Rightarrow> clusterInfo" where
  "snapshot_of T w =
     \<lparr>group = observed (fleet w), template = \<lparr>template_SelfLink = T\<rparr>,
      backend = sample_backend\<rparr>"

section \<open>Vocabulary of the properties\<close>

text \<open>
  How the loop of \<^verbatim>\<open>scale\<close> sorts a version, given the self-link of the target
  template: it runs the target template; or it is a candidate for the primary (another
  template, and a name other than the canary tag); or it is a stray canary (another
  template under the canary tag), which the loop passes over.
\<close>

definition runs_target :: "string \<Rightarrow> InstanceGroupManagerVersion \<Rightarrow> bool" where
  "runs_target selfLink v = (InstanceTemplate v = selfLink)"

definition primary_candidate :: "string \<Rightarrow> InstanceGroupManagerVersion \<Rightarrow> bool" where
  "primary_candidate selfLink v = (InstanceTemplate v \<noteq> selfLink \<and> Name v \<noteq> ''canary'')"

definition stray_canary :: "string \<Rightarrow> InstanceGroupManagerVersion \<Rightarrow> bool" where
  "stray_canary selfLink v = (InstanceTemplate v \<noteq> selfLink \<and> Name v = ''canary'')"

definition sized :: "InstanceGroupManagerVersion \<Rightarrow> bool" where
  "sized v = (TargetSize v \<noteq> None)"

definition fixed_size :: "InstanceGroupManagerVersion \<Rightarrow> int64" where
  "fixed_size v = (case TargetSize v of None \<Rightarrow> 0 | Some target \<Rightarrow> Fixed target)"

text \<open>
  The old canary size the loop ends with when it starts from \<open>old\<close>: the fixed size of
  the last version that runs the target template with a positive fixed size, and \<open>old\<close>
  when there is none.
\<close>

fun canary_after :: "string \<Rightarrow> InstanceGroupManagerVersion list \<Rightarrow> int64 \<Rightarrow> int64" where
  "canary_after selfLink [] old = old"
| "canary_after selfLink (v # vs) old =
     canary_after selfLink vs
       (if runs_target selfLink v \<and> 0 < sint (fixed_size v) then fixed_size v else old)"

definition without_stray_canaries :: "clusterInfo \<Rightarrow> clusterInfo" where
  "without_stray_canaries info =
     info\<lparr>group := (group info)
       \<lparr>Versions :=
          filter (\<lambda>v. \<not> stray_canary (template_SelfLink (template info)) v)
            (Versions (group info))\<rparr>\<rparr>"

text \<open>
  For the health gate: an instance identifier is marked unhealthy in a health response
  when some entry of that response has it with the state \<open>''UNHEALTHY''\<close>; a listed
  instance is versioned when it carries its version (and so a template), and a canary
  instance when that template is the target's self-link.
\<close>

definition marked_unhealthy :: "BackendServiceGroupHealth \<Rightarrow> string \<Rightarrow> bool" where
  "marked_unhealthy healthResponse name =
     list_ex (\<lambda>h. HealthState h = ''UNHEALTHY'' \<and> health_Instance h = name)
       (health_HealthStatus healthResponse)"

definition versioned :: "ManagedInstance \<Rightarrow> bool" where
  "versioned i = (Version i \<noteq> None)"

definition canary_instance :: "string \<Rightarrow> ManagedInstance \<Rightarrow> bool" where
  "canary_instance selfLink i =
     (map_option instance_InstanceTemplate (Version i) = Some selfLink)"

text \<open>
  For the stability waiter: a fetch is unsettled when it succeeds with a fleet that is not
  yet both stable and at its version target.
\<close>

definition unsettled :: "InstanceGroupManager result \<Rightarrow> bool" where
  "unsettled res =
     (case res of Ok refreshedGroup \<Rightarrow> stable_and_reached refreshedGroup = Ok False
      | Err e \<Rightarrow> False | Panic \<Rightarrow> False)"

text \<open>
  The version list of a fleet that started with the primary \<open>pv\<close> alone, before the
  invocation number \<open>j\<close> (from 0) of \<^verbatim>\<open>scale\<close>: the primary alone, then the primary with
  a canary of size \<open>2 ^ (j - 1)\<close>.
\<close>

definition stage_versions ::
  "InstanceGroupManagerVersion \<Rightarrow> string \<Rightarrow> nat \<Rightarrow> InstanceGroupManagerVersion list" where
  "stage_versions pv T j =
     (if j = 0 then [pv] else split_versions (InstanceTemplate pv) T (2 ^ (j - 1)))"

section \<open>Sample fleets\<close>

text \<open>
  All of them: target template \<open>''new''\<close>, target size 4, three distribution zones.
\<close>

definition sample_fleet :: "InstanceGroupManagerVersion list \<Rightarrow> clusterInfo" where
  "sample_fleet versions =
     \<lparr>group = empty_group
        \<lparr>mig_TargetSize := 4, Versions := versions,
         mig_DistributionPolicy := Some \<lparr>Zones = [''a'', ''b'', ''c'']\<rparr>\<rparr>,
      template = \<lparr>template_SelfLink = ''new''\<rparr>,
      backend = \<lparr>backend_Name = ''web'', backend_Region = '''', Backends = []\<rparr>\<rparr>"

definition primary_only :: clusterInfo where
  "primary_only =
     sample_fleet [\<lparr>Name = '''', InstanceTemplate = ''old'', TargetSize = None\<rparr>]"

definition two_unnamed_versions :: clusterInfo where
  "two_unnamed_versions =
     sample_fleet
       [\<lparr>Name = '''', InstanceTemplate = ''old'', TargetSize = None\<rparr>,
        \<lparr>Name = ''next'', InstanceTemplate = ''new'',
         TargetSize = Some \<lparr>Fixed = 1, Percent = 0\<rparr>\<rparr>]"

definition two_primaries :: clusterInfo where
  "two_primaries =
     sample_fleet
       [\<lparr>Name = '''', InstanceTemplate = ''old'', TargetSize = None\<rparr>,
        \<lparr>Name = ''previous'', InstanceTemplate = ''older'', TargetSize = None\<rparr>,
        \<lparr>Name = ''canary'', InstanceTemplate = ''new'',
         TargetSize = Some \<lparr>Fixed = 2, Percent = 0\<rparr>\<rparr>]"

definition canary_only :: clusterInfo where
  "canary_only =
     sample_fleet
       [\<lparr>Name = ''canary'', InstanceTemplate = ''new'',
         TargetSize = Some \<lparr>Fixed = 2, Percent = 0\<rparr>\<rparr>]"

definition stray_canary_fleet :: clusterInfo where
  "stray_canary_fleet =
     sample_fleet
       [\<lparr>Name = '''', InstanceTemplate = ''old'', TargetSize = None\<rparr>,
        \<lparr>Name = ''canary'', InstanceTemplate = ''abandoned'',
         TargetSize = Some \<lparr>Fixed = 2, Percent = 0\<rparr>\<rparr>]"

definition idle_runner :: "fake_world Runner" where
  "idle_runner = fake_runner (\<lambda>i. Err NotFoundError) (Err NotFoundError) (Err NotFoundError)"

text \<open>
  The listing of the specification's health example: \<open>vm-a\<close> runs the target template,
  \<open>vm-b\<close> the primary one. The health response marks one given instance unhealthy.
\<close>

definition sample_listing :: "ManagedInstance list" where
  "sample_listing =
     [\<lparr>Instance = ''vm-a'',
       Version = Some \<lparr>instance_InstanceTemplate = ''new'', instance_version_Name = ''canary''\<rparr>\<rparr>,
      \<lparr>Instance = ''vm-b'',
       Version = Some \<lparr>instance_InstanceTemplate = ''old'', instance_version_Name = ''''\<rparr>\<rparr>]"

definition unhealthy_only :: "string \<Rightarrow> BackendServiceGroupHealth" where
  "unhealthy_only name =
     \<lparr>health_HealthStatus =
        [\<lparr>HealthState = ''HEALTHY'', health_Instance = ''vm-c''\<rparr>,
         \<lparr>HealthState = ''UNHEALTHY'', health_Instance = name\<rparr>]\<rparr>"

definition gate_runner :: "string \<Rightarrow> fake_world Runner" where
  "gate_runner name =
     fake_runner (\<lambda>i. Err NotFoundError) (Ok (unhealthy_only name)) (Ok sample_listing)"

text \<open>A fetch script: not stable for the first \<open>k\<close> fetches, stable and reached after.\<close>

definition settled_group :: InstanceGroupManager where
  "settled_group =
     empty_group\<lparr>Status := Some \<lparr>IsStable = True, VersionTarget = Some \<lparr>IsReached = True\<rparr>\<rparr>\<rparr>"

definition unstable_group :: InstanceGroupManager where
  "unstable_group = empty_group\<lparr>Status := Some \<lparr>IsStable = False, VersionTarget = None\<rparr>\<rparr>"

definition stable_after :: "nat \<Rightarrow> nat \<Rightarrow> InstanceGroupManager result" where
  "stable_after k i = (if i < k then Ok unstable_group else Ok settled_group)"

definition canary_running :: clusterInfo where
  "canary_running =
     sample_fleet
       [\<lparr>Name = '''', InstanceTemplate = ''old'', TargetSize = None\<rparr>,
        \<lparr>Name = ''canary'', InstanceTemplate = ''new'',
         TargetSize = Some \<lparr>Fixed = 1, Percent = 0\<rparr>\<rparr>]"

text \<open>The specification's example of a whole rollout: target size 10, the primary alone.\<close>

definition fleet_of_ten :: provider_world where
  "fleet_of_ten =
     \<lparr>fleet = empty_group
        \<lparr>mig_TargetSize := 10,
         Versions := [\<lparr>Name = '''', InstanceTemplate = ''old'', TargetSize = None\<rparr>],
         mig_DistributionPolicy := Some \<lparr>Zones = [''a'', ''b'', ''c'']\<rparr>\<rparr>,
      applied = []\<rparr>"

text \<open>A rollout under way: target size 100, a canary of 8, three zones.\<close>

definition canary_of_eight :: clusterInfo where
  "canary_of_eight =
     \<lparr>group = empty_group
        \<lparr>mig_TargetSize := 100,
         Versions :=
           [\<lparr>Name = '''', InstanceTemplate = ''old'', TargetSize = None\<rparr>,
            \<lparr>Name = ''canary'', InstanceTemplate = ''new'',
             TargetSize = Some \<lparr>Fixed = 8, Percent = 0\<rparr>\<rparr>],
         mig_DistributionPolicy := Some \<lparr>Zones = [''a'', ''b'', ''c'']\<rparr>\<rparr>,
      template = \<lparr>template_SelfLink = ''new''\<rparr>,
      backend = \<lparr>backend_Name = ''web'', backend_Region = '''', Backends = []\<rparr>\<rparr>"

section \<open>Properties\<close>

text \<open>
  C5. The done-check is true exactly when the snapshot's version list has length one and
  that version's instance template is the self-link of the target template. Any other
  shape, a single version with another template included, gives false.
\<close>

theorem isDone_iff:
  "isDone info =
     (\<exists>v. Versions (group info) = [v] \<and>
          InstanceTemplate v = template_SelfLink (template info))"
  by (auto simp: isDone_def split: list.splits)

subsection \<open>The adapter: locations and the backend search\<close>

lemma scan_candidates_nil:
  "scan_candidates selfLink None candidates =
     (if candidates = [] then Ok (None, False) else Panic)"
  by (cases candidates) simp_all

lemma scan_items_nil:
  "scan_items selfLink None items =
     (if \<forall>item \<in> set items. BackendServices (snd item) = [] then Ok (None, False) else Panic)"
  by (induction items) (force simp: scan_candidates_nil)+

lemma scan_pages_nil:
  "scan_pages selfLink None pages =
     (if \<forall>page \<in> set pages. \<forall>item \<in> set (Items page). BackendServices (snd item) = []
      then Ok None else Panic)"
  by (induction pages) (force simp: scan_items_nil)+

text \<open>
  All the search can do: it panics as soon as the pages that arrived hold any backend
  service at all; otherwise it returns the listing's error, or the not-found error.
\<close>

lemma FindBackendServiceWithMIG_outcome:
  assumes "BackendServices_AggregatedList g project n = ((pages, err), n')"
  shows "FindBackendServiceWithMIG g project mig n =
     (if \<exists>page \<in> set pages. \<exists>item \<in> set (Items page). BackendServices (snd item) \<noteq> []
      then (Panic, n')
      else case err of
             Some e \<Rightarrow> (Err (Wrapped ''error listing backend services in project'' e), n')
           | None \<Rightarrow> (Err NotFoundError, n'))"
  using assms
  by (auto simp: FindBackendServiceWithMIG_def scan_pages_nil split: option.splits)

text \<open>
  Whatever the project holds, the search never returns a backend service: the variable it
  reads the backends from is still nil when the first candidate is reached.
\<close>

lemma FindBackendServiceWithMIG_never_finds:
  "fst (FindBackendServiceWithMIG g project mig n) \<noteq> Ok found"
  by (auto simp: FindBackendServiceWithMIG_def scan_pages_nil split: prod.splits option.splits)

text \<open>
  C8. A project whose only backend service has a backend with the fleet's self-link as its
  group: the search should return that backend service, and panics instead, after the one
  listing call.
\<close>

theorem FindBackendServiceWithMIG_panics_on_match:
  "FindBackendServiceWithMIG
     (counting_service
        [\<lparr>Items = [(''global'', \<lparr>BackendServices =
            [\<lparr>backend_Name = ''web'', backend_Region = '''',
              Backends = [\<lparr>Group = ''mig-link''\<rparr>]\<rparr>]\<rparr>)]\<rparr>])
     ''project'' (empty_group\<lparr>SelfLink := ''mig-link''\<rparr>) 0 = (Panic, 1)"
  by (simp add: FindBackendServiceWithMIG_def counting_service_def)

text \<open>
  C7, as stated, fails: with both region and zone set the fleet fetch is not refused. The
  region-scoped remote call is made (one call counted) and its answer returned.
\<close>

theorem GetMIG_both_set_counterexample:
  "GetMIG (counting_service []) ''project'' \<lparr>Region = ''us-east1'', Zone = ''us-east1-b''\<rparr>
     ''mig'' 0 = (Ok (empty_group\<lparr>SelfLink := ''regional''\<rparr>), 1)"
  by (simp add: GetMIG_def counting_service_def wrap_error_def)

text \<open>
  C7, amended. For the fleet fetch, the instance listing and the fleet patch: a location
  with neither region nor zone set fails with the location error (wrapped with the
  operation's message) and leaves the network state as it was, so no remote call was
  made; a location with the region set, whether or not the zone is set too, is not
  refused: the operation makes the region-scoped call and returns its outcome.
\<close>

theorem location_validation:
  "(Region loc = '''' \<and> Zone loc = '''' \<longrightarrow>
      GetMIG g project loc name n =
        (Err (Wrapped ''error retrieving instance group information'' LocationError), n) \<and>
      GetMIGInstances g project loc name n =
        (Err (Wrapped ''error retrieving list of managed instances'' LocationError), n) \<and>
      PatchMIG g project loc name patch n =
        (Err (Wrapped ''error retrieving instance group information'' LocationError), n)) \<and>
   (Region loc \<noteq> '''' \<longrightarrow>
      GetMIG g project loc name n =
        (case RegionInstanceGroupManagers_Get g project (Region loc) name n of
           (res, n') \<Rightarrow> (wrap_error ''error retrieving instance group information'' res, n')) \<and>
      GetMIGInstances g project loc name n =
        (case RegionInstanceGroupManagers_ListManagedInstances g project (Region loc) name n of
           (listing, n') \<Rightarrow>
             (wrap_error ''error retrieving list of managed instances'' (collect_pages listing),
              n')) \<and>
      PatchMIG g project loc name patch n =
        (case RegionInstanceGroupManagers_Patch g project (Region loc) name patch n of
           (res, n') \<Rightarrow> (wrap_error ''error retrieving instance group information'' res, n')))"
  by (simp add: GetMIG_def GetMIGInstances_def PatchMIG_def wrap_error_def split: prod.splits)

theorem location_validation_witness:
  "GetMIG (counting_service []) ''project'' \<lparr>Region = '''', Zone = ''''\<rparr> ''mig'' 0 =
     (Err (Wrapped ''error retrieving instance group information'' LocationError), 0) \<and>
   GetMIGInstances (counting_service []) ''project'' \<lparr>Region = '''', Zone = ''''\<rparr> ''mig'' 0 =
     (Err (Wrapped ''error retrieving list of managed instances'' LocationError), 0) \<and>
   PatchMIG (counting_service []) ''project'' \<lparr>Region = '''', Zone = ''''\<rparr> ''mig''
       empty_group 0 =
     (Err (Wrapped ''error retrieving instance group information'' LocationError), 0) \<and>
   PatchMIG (counting_service []) ''project'' \<lparr>Region = ''us-east1'', Zone = ''us-east1-b''\<rparr>
       ''mig'' empty_group 0 = (Ok (), 1) \<and>
   GetMIGInstances (counting_service []) ''project''
       \<lparr>Region = ''us-east1'', Zone = ''us-east1-b''\<rparr> ''mig'' 0 =
     (Ok [\<lparr>Instance = ''regional'', Version = None\<rparr>], 1)"
  using
    location_validation [of "\<lparr>Region = '''', Zone = ''''\<rparr>" "counting_service []"
      "''project''" "''mig''" 0 empty_group]
    location_validation [of "\<lparr>Region = ''us-east1'', Zone = ''us-east1-b''\<rparr>"
      "counting_service []" "''project''" "''mig''" 0 empty_group]
  by (simp add: counting_service_def wrap_error_def collect_pages_def)

subsection \<open>The loop of scale\<close>

lemma scan_no_candidate:
  "list_all sized (filter (runs_target T) vs) \<Longrightarrow> filter (primary_candidate T) vs = [] \<Longrightarrow>
   scan_versions T vs (p, old) = Ok (p, canary_after T vs old)"
proof (induction vs arbitrary: old)
  case Nil
  then show ?case by simp
next
  case (Cons v vs)
  then show ?case
    by (auto simp: runs_target_def primary_candidate_def sized_def fixed_size_def
        split: if_splits option.splits)
qed

lemma scan_second_candidate:
  "list_all sized (filter (runs_target T) vs) \<Longrightarrow> p \<noteq> '''' \<Longrightarrow>
   filter (primary_candidate T) vs = a # rest \<Longrightarrow>
   scan_versions T vs (p, old) = Err (AmbiguousPrimaryError p (InstanceTemplate a))"
proof (induction vs arbitrary: old)
  case Nil
  then show ?case by simp
next
  case (Cons v vs)
  then show ?case
    by (auto simp: runs_target_def primary_candidate_def sized_def fixed_size_def
        split: if_splits option.splits)
qed

lemma scan_one_candidate:
  "list_all sized (filter (runs_target T) vs) \<Longrightarrow> filter (primary_candidate T) vs = [a] \<Longrightarrow>
   InstanceTemplate a \<noteq> '''' \<Longrightarrow>
   scan_versions T vs ('''', old) = Ok (InstanceTemplate a, canary_after T vs old)"
proof (induction vs arbitrary: old)
  case Nil
  then show ?case by simp
next
  case (Cons v vs)
  show ?case
  proof (cases "primary_candidate T v")
    case True
    from True have nt: "\<not> runs_target T v"
      by (simp add: primary_candidate_def runs_target_def)
    from True nt Cons.prems have va: "v = a" and none: "filter (primary_candidate T) vs = []"
      and sz: "list_all sized (filter (runs_target T) vs)"
      by simp_all
    from True va scan_no_candidate [OF sz none, of "InstanceTemplate a" old] nt
    show ?thesis
      by (simp add: primary_candidate_def runs_target_def)
  next
    case False
    with Cons.prems have one: "filter (primary_candidate T) vs = [a]" by simp
    from Cons.prems have sz: "list_all sized (filter (runs_target T) vs)"
      by (simp split: if_splits)
    from False Cons.prems Cons.IH [OF sz one] show ?thesis
      by (auto simp: runs_target_def primary_candidate_def sized_def fixed_size_def
          split: if_splits option.splits)
  qed
qed

lemma scan_two_candidates:
  "list_all sized (filter (runs_target T) vs) \<Longrightarrow>
   filter (primary_candidate T) vs = a # b # rest \<Longrightarrow> InstanceTemplate a \<noteq> '''' \<Longrightarrow>
   scan_versions T vs ('''', old) =
     Err (AmbiguousPrimaryError (InstanceTemplate a) (InstanceTemplate b))"
proof (induction vs arbitrary: old)
  case Nil
  then show ?case by simp
next
  case (Cons v vs)
  show ?case
  proof (cases "primary_candidate T v")
    case True
    from True have nt: "\<not> runs_target T v"
      by (simp add: primary_candidate_def runs_target_def)
    from True nt Cons.prems have va: "v = a"
      and more: "filter (primary_candidate T) vs = b # rest"
      and sz: "list_all sized (filter (runs_target T) vs)"
      by simp_all
    from True va Cons.prems(3) scan_second_candidate [OF sz _ more, of "InstanceTemplate a" old]
    show ?thesis
      by (simp add: primary_candidate_def runs_target_def)
  next
    case False
    with Cons.prems have two: "filter (primary_candidate T) vs = a # b # rest" by simp
    from Cons.prems have sz: "list_all sized (filter (runs_target T) vs)"
      by (simp split: if_splits)
    from False Cons.prems Cons.IH [OF sz two] show ?thesis
      by (auto simp: runs_target_def primary_candidate_def sized_def fixed_size_def
          split: if_splits option.splits)
  qed
qed

lemma canary_after_no_target:
  "filter (runs_target T) vs = [] \<Longrightarrow> canary_after T vs old = old"
  by (induction vs arbitrary: old) (auto split: if_splits)

lemma canary_after_one_target:
  "filter (runs_target T) vs = [c] \<Longrightarrow>
   canary_after T vs old = (if 0 < sint (fixed_size c) then fixed_size c else old)"
  by (induction vs arbitrary: old) (auto split: if_splits simp: canary_after_no_target)

lemma canary_after_no_positive:
  "filter (\<lambda>v. 0 < sint (fixed_size v)) (filter (runs_target T) vs) = [] \<Longrightarrow>
   canary_after T vs old = old"
  by (induction vs arbitrary: old) (auto split: if_splits)

lemma scan_ignores_stray:
  "scan_versions T (filter (\<lambda>v. \<not> stray_canary T v) vs) acc = scan_versions T vs acc"
proof (induction vs arbitrary: acc)
  case Nil
  then show ?case by simp
next
  case (Cons v vs)
  obtain p old where acc: "acc = (p, old)" by (cases acc)
  show ?case unfolding acc using Cons.IH
    by (auto simp: stray_canary_def split: option.splits)
qed

lemma scan_old_size:
  "scan_versions T vs (p0, old0) = Ok (p, old) \<Longrightarrow> old = canary_after T vs old0"
proof (induction vs arbitrary: p0 old0)
  case Nil
  then show ?case by simp
next
  case (Cons v vs)
  then show ?case
    by (auto simp: runs_target_def fixed_size_def split: if_splits option.splits)
qed

subsection \<open>Machine integers\<close>

lemma sint_of_nat_64:
  assumes "n < 2 ^ 63"
  shows "sint (of_nat n :: 64 word) = int n"
proof -
  from assms have "int n < 2 ^ 63" by (metis of_nat_less_iff of_nat_numeral of_nat_power)
  moreover have "(of_nat n :: 64 word) = word_of_int (int n)" by simp
  ultimately show ?thesis
    by (simp only: sint_sbintrunc' signed_take_bit_int_eq_self)
      (simp add: signed_take_bit_int_eq_self)
qed

lemma sint_pow2_64:
  assumes "n < 63"
  shows "sint ((2::64 word) ^ n) = 2 ^ n"
proof -
  from assms have "(2::nat) ^ n < 2 ^ 63" by (intro power_strict_increasing) simp_all
  from sint_of_nat_64 [OF this] show ?thesis by simp
qed

subsection \<open>The plan of scale\<close>

lemma scale_plan_scan_error:
  "scan_versions (template_SelfLink (template info)) (Versions (group info)) ('''', 0) = Err e
   \<Longrightarrow> scale_plan info = Err e"
  by (simp add: scale_plan_def)

lemma scale_plan_missing:
  "scan_versions (template_SelfLink (template info)) (Versions (group info)) ('''', 0) =
     Ok ('''', old) \<Longrightarrow> scale_plan info = Err MissingPrimaryError"
  by (simp add: scale_plan_def build_plan_def)

lemma scale_of_plan_error: "scale_plan info = Err e \<Longrightarrow> scale r info w = (Err e, w)"
  by (simp add: scale_def)

lemma build_plan_without_stray:
  "build_plan (without_stray_canaries info) p old = build_plan info p old"
  by (simp add: build_plan_def without_stray_canaries_def Let_def)

lemma scale_plan_without_stray: "scale_plan (without_stray_canaries info) = scale_plan info"
proof -
  have "scan_versions (template_SelfLink (template (without_stray_canaries info)))
          (Versions (group (without_stray_canaries info))) ('''', 0) =
        scan_versions (template_SelfLink (template info)) (Versions (group info)) ('''', 0)"
    by (simp add: without_stray_canaries_def scan_ignores_stray)
  then show ?thesis
    by (simp add: scale_plan_def build_plan_without_stray split: result.splits)
qed

lemma scale_plan_Ok:
  assumes "scale_plan info = Ok plan"
  obtains p old where
    "scan_versions (template_SelfLink (template info)) (Versions (group info)) ('''', 0) =
       Ok (p, old)"
    and "build_plan info p old = Ok plan"
  using assms by (auto simp: scale_plan_def split: result.splits)

lemma build_plan_Ok:
  assumes "build_plan info p old = Ok plan"
  obtains policy where "p \<noteq> ''''" and "mig_DistributionPolicy (group info) = Some policy"
    and "plan_primaryTemplate plan = p" and "plan_oldCanarySize plan = old"
    and "plan_newCanarySize plan =
      (if sint (mig_TargetSize (group info)) \<le> sint (double_canary old)
       then mig_TargetSize (group info) else double_canary old)"
    and "plan_patch plan =
      make_patch
        (if sint (mig_TargetSize (group info)) \<le> sint (double_canary old)
         then collapsed_versions (template_SelfLink (template info))
         else split_versions p (template_SelfLink (template info)) (double_canary old))
        (if sint (plan_newCanarySize plan - old) < sint (of_nat (length (Zones policy)) :: int64)
         then of_nat (length (Zones policy)) else plan_newCanarySize plan - old)
        0"
  using assms by (auto simp: build_plan_def Let_def split: if_splits option.splits)

lemma scale_plan_old_size:
  assumes "scale_plan info = Ok plan"
  shows "plan_oldCanarySize plan =
     canary_after (template_SelfLink (template info)) (Versions (group info)) 0"
proof -
  from assms obtain p old where
    scan: "scan_versions (template_SelfLink (template info)) (Versions (group info)) ('''', 0) =
       Ok (p, old)" and build: "build_plan info p old = Ok plan"
    by (rule scale_plan_Ok)
  from build have "plan_oldCanarySize plan = old" by (rule build_plan_Ok)
  with scan_old_size [OF scan] show ?thesis by simp
qed

lemma scale_plan_shape:
  assumes "scale_plan info = Ok plan"
  shows "plan_newCanarySize plan =
     (if sint (mig_TargetSize (group info)) \<le> sint (double_canary (plan_oldCanarySize plan))
      then mig_TargetSize (group info) else double_canary (plan_oldCanarySize plan)) \<and>
   Versions (plan_patch plan) =
     (if sint (mig_TargetSize (group info)) \<le> sint (double_canary (plan_oldCanarySize plan))
      then collapsed_versions (template_SelfLink (template info))
      else split_versions (plan_primaryTemplate plan) (template_SelfLink (template info))
             (double_canary (plan_oldCanarySize plan)))"
proof -
  from assms obtain p old where build: "build_plan info p old = Ok plan"
    by (rule scale_plan_Ok)
  from build show ?thesis
    by (rule build_plan_Ok) (simp add: make_patch_def)
qed

lemmas sample_defs =
  sample_fleet_def empty_group_def idle_runner_def fake_runner_def fake_api_def fresh_world_def

text \<open>
  C6, as stated, fails. The fleet \<open>two_unnamed_versions\<close> has exactly two versions, named
  \<open>''''\<close> and \<open>''next''\<close>, neither of them the canary tag; the second runs the target
  template with fixed size 1. \<^verbatim>\<open>scale\<close> takes the second as the current canary, does
  not fail, and hands the adapter the patch with the canary doubled to 2.
\<close>

theorem two_untagged_versions_counterexample:
  "scale idle_runner two_unnamed_versions fresh_world =
   (Ok (), fresh_world\<lparr>patches := [make_patch (split_versions ''old'' ''new'' 2) 3 0]\<rparr>)"
  by (simp add: scale_def scale_plan_def build_plan_def two_unnamed_versions_def sample_defs
      double_canary_def)

text \<open>
  C6, amended. Count only the versions that do not run the target template and whose name
  is not the canary tag. On a snapshot where every version that runs the target template
  carries a target size: with two or more such versions, the first of them naming a
  template, \<^verbatim>\<open>scale\<close> fails with the ambiguous-primary error, which names the templates of
  the first two; with none, it fails with the missing-primary error. In both cases the
  adapter's state is as before.
\<close>

theorem scale_primary_errors:
  "(list_all sized (filter (runs_target (template_SelfLink (template info)))
        (Versions (group info))) \<and>
    filter (primary_candidate (template_SelfLink (template info))) (Versions (group info)) =
      a # b # rest \<and>
    InstanceTemplate a \<noteq> '''' \<longrightarrow>
      scale r info w =
        (Err (AmbiguousPrimaryError (InstanceTemplate a) (InstanceTemplate b)), w)) \<and>
   (list_all sized (filter (runs_target (template_SelfLink (template info)))
        (Versions (group info))) \<and>
    filter (primary_candidate (template_SelfLink (template info))) (Versions (group info)) = []
      \<longrightarrow> scale r info w = (Err MissingPrimaryError, w))"
proof (intro conjI impI)
  assume "list_all sized (filter (runs_target (template_SelfLink (template info)))
        (Versions (group info))) \<and>
    filter (primary_candidate (template_SelfLink (template info))) (Versions (group info)) =
      a # b # rest \<and>
    InstanceTemplate a \<noteq> ''''"
  then show "scale r info w =
        (Err (AmbiguousPrimaryError (InstanceTemplate a) (InstanceTemplate b)), w)"
    by (intro scale_of_plan_error scale_plan_scan_error scan_two_candidates) simp_all
next
  assume "list_all sized (filter (runs_target (template_SelfLink (template info)))
        (Versions (group info))) \<and>
    filter (primary_candidate (template_SelfLink (template info))) (Versions (group info)) = []"
  then have "scan_versions (template_SelfLink (template info)) (Versions (group info)) ('''', 0) =
     Ok ('''', canary_after (template_SelfLink (template info)) (Versions (group info)) 0)"
    by (intro scan_no_candidate) simp_all
  then show "scale r info w = (Err MissingPrimaryError, w)"
    by (intro scale_of_plan_error scale_plan_missing)
qed

theorem scale_primary_errors_witness:
  "scale idle_runner two_primaries fresh_world =
     (Err (AmbiguousPrimaryError ''old'' ''older''), fresh_world) \<and>
   scale idle_runner canary_only fresh_world = (Err MissingPrimaryError, fresh_world)"
proof -
  have amb:
    "list_all sized (filter (runs_target (template_SelfLink (template two_primaries)))
        (Versions (group two_primaries))) \<and>
     filter (primary_candidate (template_SelfLink (template two_primaries)))
        (Versions (group two_primaries)) =
       \<lparr>Name = '''', InstanceTemplate = ''old'', TargetSize = None\<rparr> #
       \<lparr>Name = ''previous'', InstanceTemplate = ''older'', TargetSize = None\<rparr> # [] \<and>
     InstanceTemplate \<lparr>Name = '''', InstanceTemplate = ''old'', TargetSize = None\<rparr> \<noteq> ''''"
    by (simp add: two_primaries_def sample_defs runs_target_def primary_candidate_def
        sized_def)
  have mis:
    "list_all sized (filter (runs_target (template_SelfLink (template canary_only)))
        (Versions (group canary_only))) \<and>
     filter (primary_candidate (template_SelfLink (template canary_only)))
        (Versions (group canary_only)) = []"
    by (simp add: canary_only_def sample_defs runs_target_def primary_candidate_def
        sized_def)
  from amb mis
    scale_primary_errors [of two_primaries
      "\<lparr>Name = '''', InstanceTemplate = ''old'', TargetSize = None\<rparr>"
      "\<lparr>Name = ''previous'', InstanceTemplate = ''older'', TargetSize = None\<rparr>" "[]"
      idle_runner fresh_world]
    scale_primary_errors [of canary_only _ _ _ idle_runner fresh_world]
  show ?thesis by simp
qed

text \<open>
  C9. When \<^verbatim>\<open>scale\<close> returns the missing-primary or the ambiguous-primary error, the
  adapter's state is the one it started from: the error comes from the plan, before the
  patch call, and the same error comes back under any other adapter and state.
\<close>

theorem scale_primary_error_without_patch:
  assumes "scale r info w = (Err e, w')"
    and "e = MissingPrimaryError \<or> e = AmbiguousPrimaryError a b"
  shows "w' = w \<and> scale_plan info = Err e \<and> scale r2 info w2 = (Err e, w2)"
proof (cases "scale_plan info")
  case (Ok plan)
  with assms show ?thesis
    by (auto simp: scale_def split: prod.splits result.splits)
next
  case (Err e')
  with assms show ?thesis by (auto simp: scale_def)
next
  case Panic
  with assms show ?thesis by (simp add: scale_def)
qed

theorem scale_primary_error_without_patch_witness:
  "scale idle_runner two_primaries (fresh_world\<lparr>patches := [empty_group]\<rparr>) =
     (Err (AmbiguousPrimaryError ''old'' ''older''), fresh_world\<lparr>patches := [empty_group]\<rparr>) \<and>
   scale_plan two_primaries = Err (AmbiguousPrimaryError ''old'' ''older'')"
proof -
  have run: "scale idle_runner two_primaries (fresh_world\<lparr>patches := [empty_group]\<rparr>) =
     (Err (AmbiguousPrimaryError ''old'' ''older''), fresh_world\<lparr>patches := [empty_group]\<rparr>)"
    by (simp add: scale_def scale_plan_def build_plan_def two_primaries_def sample_fleet_def
        empty_group_def)
  from run scale_primary_error_without_patch [OF run, of "''old''" "''older''"
      idle_runner fresh_world]
  show ?thesis by simp
qed

text \<open>
  C10. On a snapshot with a version tagged canary that runs another template than the
  target, and with no version that runs the target template at a positive fixed size:
  \<^verbatim>\<open>scale\<close> does exactly what it does on the snapshot without the stray canary versions,
  and whenever it gets as far as a plan, the old canary size is 0, its doubling is 1, and
  the patch is the one for a first canary of size 1 (the collapse when the target size is
  at most 1).
\<close>

theorem stray_canary_ignored:
  assumes "\<exists>v \<in> set (Versions (group info)).
             Name v = ''canary'' \<and> InstanceTemplate v \<noteq> template_SelfLink (template info)"
    and "filter (\<lambda>v. 0 < sint (fixed_size v))
           (filter (runs_target (template_SelfLink (template info))) (Versions (group info))) = []"
  shows "scale r info w = scale r (without_stray_canaries info) w \<and>
    (scale_plan info = Ok plan \<longrightarrow>
       plan_oldCanarySize plan = 0 \<and>
       double_canary (plan_oldCanarySize plan) = 1 \<and>
       plan_newCanarySize plan =
         (if sint (mig_TargetSize (group info)) \<le> 1 then mig_TargetSize (group info) else 1) \<and>
       Versions (plan_patch plan) =
         (if sint (mig_TargetSize (group info)) \<le> 1
          then collapsed_versions (template_SelfLink (template info))
          else split_versions (plan_primaryTemplate plan)
                 (template_SelfLink (template info)) 1))"
proof (intro conjI impI)
  show "scale r info w = scale r (without_stray_canaries info) w"
    by (simp add: scale_def scale_plan_without_stray)
next
  assume ok: "scale_plan info = Ok plan"
  from scale_plan_old_size [OF ok] canary_after_no_positive [OF assms(2)]
  show old: "plan_oldCanarySize plan = 0" by simp
  then show dbl: "double_canary (plan_oldCanarySize plan) = 1"
    by (simp add: double_canary_def)
  from scale_plan_shape [OF ok] dbl
  show "plan_newCanarySize plan =
         (if sint (mig_TargetSize (group info)) \<le> 1 then mig_TargetSize (group info) else 1)"
    and "Versions (plan_patch plan) =
         (if sint (mig_TargetSize (group info)) \<le> 1
          then collapsed_versions (template_SelfLink (template info))
          else split_versions (plan_primaryTemplate plan)
                 (template_SelfLink (template info)) 1)"
    by simp_all
qed

lemma stray_canary_fleet_plan:
  "scale_plan stray_canary_fleet =
     Ok \<lparr>plan_primaryTemplate = ''old'', plan_oldCanarySize = 0, plan_newCanarySize = 1,
         plan_patch = make_patch (split_versions ''old'' ''new'' 1) 3 0\<rparr>"
  by (simp add: scale_plan_def build_plan_def stray_canary_fleet_def sample_fleet_def
      empty_group_def double_canary_def)

theorem stray_canary_ignored_witness:
  "scale idle_runner stray_canary_fleet fresh_world =
     scale idle_runner (without_stray_canaries stray_canary_fleet) fresh_world \<and>
   scale_plan stray_canary_fleet =
     Ok \<lparr>plan_primaryTemplate = ''old'', plan_oldCanarySize = 0, plan_newCanarySize = 1,
         plan_patch = make_patch (split_versions ''old'' ''new'' 1) 3 0\<rparr> \<and>
   double_canary 0 = 1"
proof -
  have stray: "\<exists>v \<in> set (Versions (group stray_canary_fleet)).
      Name v = ''canary'' \<and>
      InstanceTemplate v \<noteq> template_SelfLink (template stray_canary_fleet)"
    by (simp add: stray_canary_fleet_def sample_fleet_def empty_group_def)
  have none: "filter (\<lambda>v. 0 < sint (fixed_size v))
      (filter (runs_target (template_SelfLink (template stray_canary_fleet)))
         (Versions (group stray_canary_fleet))) = []"
    by (simp add: stray_canary_fleet_def sample_fleet_def empty_group_def runs_target_def)
  from stray_canary_ignored [OF stray none, of idle_runner fresh_world
      "\<lparr>plan_primaryTemplate = ''old'', plan_oldCanarySize = 0, plan_newCanarySize = 1,
        plan_patch = make_patch (split_versions ''old'' ''new'' 1) 3 0\<rparr>"]
    stray_canary_fleet_plan
  show ?thesis by simp
qed

text \<open>
  C2. Whenever \<^verbatim>\<open>scale\<close> gets as far as the patch call, the patch is the one it hands
  the adapter, and it is fixed by the snapshot: with \<^verbatim>\<open>oldCanarySize\<close> the old canary
  size the loop finds in the snapshot's versions, and \<^verbatim>\<open>newCanarySize\<close> its doubling (1
  from 0) clamped to the fleet's target size, the patch carries the versions for that new
  size, and its update policy has \<^verbatim>\<open>maxUnavailable\<close> 0 and \<^verbatim>\<open>maxSurge\<close> the larger of
  \<^verbatim>\<open>newCanarySize - oldCanarySize\<close> (the \<^verbatim>\<open>int64\<close> difference) and the number of
  zones of the fleet's distribution policy.
\<close>

theorem scale_update_policy:
  assumes "scale_plan info = Ok plan"
    and "mig_DistributionPolicy (group info) = Some policy"
    and "length (Zones policy) < 2 ^ 63"
    and "oldCanarySize =
      canary_after (template_SelfLink (template info)) (Versions (group info)) 0"
    and "doubled = (if oldCanarySize = 0 then 1 else 2 * oldCanarySize)"
    and "newCanarySize =
      (if sint (mig_TargetSize (group info)) \<le> sint doubled
       then mig_TargetSize (group info) else doubled)"
  shows "scale r info w =
      (case api_PatchMIG (computeAPI r) (projectID r) (location r) (migName r)
              (plan_patch plan) w of
         (Err e, w') \<Rightarrow>
           (Err (Wrapped ''error updating instance templates in instance group'' e), w')
       | (other, w') \<Rightarrow> (other, w')) \<and>
    plan_oldCanarySize plan = oldCanarySize \<and>
    plan_newCanarySize plan = newCanarySize \<and>
    Versions (plan_patch plan) =
      (if sint (mig_TargetSize (group info)) \<le> sint doubled
       then [\<lparr>Name = '''', InstanceTemplate = template_SelfLink (template info),
              TargetSize = None\<rparr>]
       else [\<lparr>Name = '''', InstanceTemplate = plan_primaryTemplate plan, TargetSize = None\<rparr>,
             \<lparr>Name = ''canary'', InstanceTemplate = template_SelfLink (template info),
              TargetSize = Some \<lparr>Fixed = newCanarySize, Percent = 0\<rparr>\<rparr>]) \<and>
    (\<exists>maxSurge.
       UpdatePolicy (plan_patch plan) =
         Some \<lparr>policy_Type = ''PROACTIVE'',
               MaxSurge = Some \<lparr>Fixed = maxSurge, Percent = 0\<rparr>,
               MaxUnavailable = Some \<lparr>Fixed = 0, Percent = 0\<rparr>\<rparr> \<and>
       sint maxSurge =
         max (sint (newCanarySize - oldCanarySize)) (int (length (Zones policy))))"
proof -
  from assms(1) have run: "scale r info w =
      (case api_PatchMIG (computeAPI r) (projectID r) (location r) (migName r)
              (plan_patch plan) w of
         (Err e, w') \<Rightarrow>
           (Err (Wrapped ''error updating instance templates in instance group'' e), w')
       | (other, w') \<Rightarrow> (other, w'))"
    by (simp add: scale_def)
  from scale_plan_old_size [OF assms(1)] assms(4)
  have old: "plan_oldCanarySize plan = oldCanarySize" by simp
  from assms(5) have dbl: "double_canary oldCanarySize = doubled"
    by (simp add: double_canary_def mult.commute)
  from scale_plan_shape [OF assms(1)] old dbl assms(6)
  have new: "plan_newCanarySize plan = newCanarySize"
    and vs: "Versions (plan_patch plan) =
      (if sint (mig_TargetSize (group info)) \<le> sint doubled
       then [\<lparr>Name = '''', InstanceTemplate = template_SelfLink (template info),
              TargetSize = None\<rparr>]
       else [\<lparr>Name = '''', InstanceTemplate = plan_primaryTemplate plan, TargetSize = None\<rparr>,
             \<lparr>Name = ''canary'', InstanceTemplate = template_SelfLink (template info),
              TargetSize = Some \<lparr>Fixed = newCanarySize, Percent = 0\<rparr>\<rparr>])"
    by (simp_all add: collapsed_versions_def split_versions_def)
  from assms(1) obtain p old' where build: "build_plan info p old' = Ok plan"
    by (rule scale_plan_Ok)
  from build assms(2,3) have "\<exists>maxSurge.
       UpdatePolicy (plan_patch plan) =
         Some \<lparr>policy_Type = ''PROACTIVE'',
               MaxSurge = Some \<lparr>Fixed = maxSurge, Percent = 0\<rparr>,
               MaxUnavailable = Some \<lparr>Fixed = 0, Percent = 0\<rparr>\<rparr> \<and>
       sint maxSurge =
         max (sint (plan_newCanarySize plan - plan_oldCanarySize plan))
             (int (length (Zones policy)))"
    by (elim build_plan_Ok) (auto simp: make_patch_def sint_of_nat_64)
  with old new have surge: "\<exists>maxSurge.
       UpdatePolicy (plan_patch plan) =
         Some \<lparr>policy_Type = ''PROACTIVE'',
               MaxSurge = Some \<lparr>Fixed = maxSurge, Percent = 0\<rparr>,
               MaxUnavailable = Some \<lparr>Fixed = 0, Percent = 0\<rparr>\<rparr> \<and>
       sint maxSurge =
         max (sint (newCanarySize - oldCanarySize)) (int (length (Zones policy)))"
    by simp
  from run old new vs surge show ?thesis by (intro conjI)
qed

lemma primary_only_plan:
  "scale_plan primary_only =
     Ok \<lparr>plan_primaryTemplate = ''old'', plan_oldCanarySize = 0, plan_newCanarySize = 1,
         plan_patch = make_patch (split_versions ''old'' ''new'' 1) 3 0\<rparr>"
  by (simp add: scale_plan_def build_plan_def primary_only_def sample_fleet_def
      empty_group_def double_canary_def)

lemma canary_of_eight_plan:
  "scale_plan canary_of_eight =
     Ok \<lparr>plan_primaryTemplate = ''old'', plan_oldCanarySize = 8, plan_newCanarySize = 16,
         plan_patch = make_patch (split_versions ''old'' ''new'' 16) 8 0\<rparr>"
  by (simp add: scale_plan_def build_plan_def canary_of_eight_def empty_group_def
      double_canary_def)

theorem scale_update_policy_witness:
  "(scale idle_runner primary_only fresh_world =
      (Ok (), fresh_world\<lparr>patches := [make_patch (split_versions ''old'' ''new'' 1) 3 0]\<rparr>) \<and>
    (\<exists>maxSurge.
       UpdatePolicy (make_patch (split_versions ''old'' ''new'' 1) 3 0) =
         Some \<lparr>policy_Type = ''PROACTIVE'',
               MaxSurge = Some \<lparr>Fixed = maxSurge, Percent = 0\<rparr>,
               MaxUnavailable = Some \<lparr>Fixed = 0, Percent = 0\<rparr>\<rparr> \<and>
       sint maxSurge = 3)) \<and>
   (scale idle_runner canary_of_eight fresh_world =
      (Ok (), fresh_world\<lparr>patches := [make_patch (split_versions ''old'' ''new'' 16) 8 0]\<rparr>) \<and>
    (\<exists>maxSurge.
       UpdatePolicy (make_patch (split_versions ''old'' ''new'' 16) 8 0) =
         Some \<lparr>policy_Type = ''PROACTIVE'',
               MaxSurge = Some \<lparr>Fixed = maxSurge, Percent = 0\<rparr>,
               MaxUnavailable = Some \<lparr>Fixed = 0, Percent = 0\<rparr>\<rparr> \<and>
       sint maxSurge = 8))"
proof -
  have zones: "length (Zones \<lparr>Zones = [''a'', ''b'', ''c'']\<rparr>) < 2 ^ 63" by simp
  have policy1:
    "mig_DistributionPolicy (group primary_only) = Some \<lparr>Zones = [''a'', ''b'', ''c'']\<rparr>"
    by (simp add: primary_only_def sample_fleet_def empty_group_def)
  have old1: "(0::int64) =
      canary_after (template_SelfLink (template primary_only)) (Versions (group primary_only)) 0"
    by (simp add: primary_only_def sample_fleet_def empty_group_def runs_target_def)
  have dbl1: "(1::int64) = (if (0::int64) = 0 then 1 else 2 * 0)" by simp
  have new1: "(1::int64) =
      (if sint (mig_TargetSize (group primary_only)) \<le> sint (1::int64)
       then mig_TargetSize (group primary_only) else 1)"
    by (simp add: primary_only_def sample_fleet_def empty_group_def)
  have policy2:
    "mig_DistributionPolicy (group canary_of_eight) = Some \<lparr>Zones = [''a'', ''b'', ''c'']\<rparr>"
    by (simp add: canary_of_eight_def empty_group_def)
  have old2: "(8::int64) =
      canary_after (template_SelfLink (template canary_of_eight))
        (Versions (group canary_of_eight)) 0"
    by (simp add: canary_of_eight_def empty_group_def runs_target_def fixed_size_def)
  have dbl2: "(16::int64) = (if (8::int64) = 0 then 1 else 2 * 8)" by simp
  have new2: "(16::int64) =
      (if sint (mig_TargetSize (group canary_of_eight)) \<le> sint (16::int64)
       then mig_TargetSize (group canary_of_eight) else 16)"
    by (simp add: canary_of_eight_def empty_group_def)
  from scale_update_policy [OF primary_only_plan policy1 zones old1 dbl1 new1,
      of idle_runner fresh_world]
  have first: "scale idle_runner primary_only fresh_world =
      (Ok (), fresh_world\<lparr>patches := [make_patch (split_versions ''old'' ''new'' 1) 3 0]\<rparr>) \<and>
    (\<exists>maxSurge.
       UpdatePolicy (make_patch (split_versions ''old'' ''new'' 1) 3 0) =
         Some \<lparr>policy_Type = ''PROACTIVE'',
               MaxSurge = Some \<lparr>Fixed = maxSurge, Percent = 0\<rparr>,
               MaxUnavailable = Some \<lparr>Fixed = 0, Percent = 0\<rparr>\<rparr> \<and>
       sint maxSurge = 3)"
    by (simp add: idle_runner_def fake_runner_def fake_api_def fresh_world_def)
  from scale_update_policy [OF canary_of_eight_plan policy2 zones old2 dbl2 new2,
      of idle_runner fresh_world]
  have second: "scale idle_runner canary_of_eight fresh_world =
      (Ok (), fresh_world\<lparr>patches := [make_patch (split_versions ''old'' ''new'' 16) 8 0]\<rparr>) \<and>
    (\<exists>maxSurge.
       UpdatePolicy (make_patch (split_versions ''old'' ''new'' 16) 8 0) =
         Some \<lparr>policy_Type = ''PROACTIVE'',
               MaxSurge = Some \<lparr>Fixed = maxSurge, Percent = 0\<rparr>,
               MaxUnavailable = Some \<lparr>Fixed = 0, Percent = 0\<rparr>\<rparr> \<and>
       sint maxSurge = 8)"
    by (simp add: idle_runner_def fake_runner_def fake_api_def fresh_world_def)
  from first second show ?thesis by (rule conjI)
qed

subsection \<open>The health gate\<close>

lemma mark_unhealthy_iff:
  "mark_unhealthy hs m name =
     (m name \<or> list_ex (\<lambda>h. HealthState h = ''UNHEALTHY'' \<and> health_Instance h = name) hs)"
  by (induction hs arbitrary: m) auto

lemma check_instances_find:
  "list_all versioned instances \<Longrightarrow>
   check_instances T u instances =
     (case find (\<lambda>i. canary_instance T i \<and> u (Instance i)) instances of
        None \<Rightarrow> Ok ()
      | Some i \<Rightarrow> Err (UnhealthyCanaryError (Instance i)))"
  by (induction instances) (auto simp: versioned_def canary_instance_def split: option.splits)

text \<open>
  C3. When the health lookup and the instance listing both succeed, and every listed
  instance carries its version: the gate fails exactly when some listed instance runs the
  target template and is marked unhealthy in the health response, with the error naming
  the first such instance of the listing; otherwise it passes. An unhealthy instance that
  runs another template never makes it fail.
\<close>

theorem health_gate:
  assumes "api_GetBackendServiceGroupHealth (computeAPI r) (projectID r) (backend info)
             (group info) w = (Ok healthResponse, w1)"
    and "api_GetMIGInstances (computeAPI r) (projectID r) (location r) (migName r) w1 =
           (Ok instances, w2)"
    and "list_all versioned instances"
  shows "checkBackendServiceHealth r info w =
      (case find (\<lambda>i. canary_instance (template_SelfLink (template info)) i \<and>
                       marked_unhealthy healthResponse (Instance i)) instances of
         None \<Rightarrow> (Ok (), w2)
       | Some i \<Rightarrow> (Err (UnhealthyCanaryError (Instance i)), w2)) \<and>
    ((\<exists>name. checkBackendServiceHealth r info w = (Err (UnhealthyCanaryError name), w2)) =
     (\<exists>i \<in> set instances. canary_instance (template_SelfLink (template info)) i \<and>
        marked_unhealthy healthResponse (Instance i))) \<and>
    ((checkBackendServiceHealth r info w = (Ok (), w2)) =
     (\<forall>i \<in> set instances. marked_unhealthy healthResponse (Instance i) \<longrightarrow>
        \<not> canary_instance (template_SelfLink (template info)) i))"
proof -
  let ?P = "\<lambda>i. canary_instance (template_SelfLink (template info)) i \<and>
                       marked_unhealthy healthResponse (Instance i)"
  have u: "mark_unhealthy (health_HealthStatus healthResponse) (\<lambda>instance. False) =
      marked_unhealthy healthResponse"
    by (rule ext) (simp add: mark_unhealthy_iff marked_unhealthy_def)
  from assms have eq: "checkBackendServiceHealth r info w =
      (case find ?P instances of
         None \<Rightarrow> (Ok (), w2)
       | Some i \<Rightarrow> (Err (UnhealthyCanaryError (Instance i)), w2))"
    by (simp add: checkBackendServiceHealth_def u check_instances_find split: option.splits)
  show ?thesis
  proof (cases "find ?P instances")
    case None
    then have "\<not> (\<exists>i \<in> set instances. ?P i)" by (simp add: find_None_iff)
    with None eq show ?thesis by auto
  next
    case (Some i)
    then have "i \<in> set instances \<and> ?P i" by (auto simp: find_Some_iff)
    with Some eq show ?thesis by auto
  qed
qed

theorem health_gate_witness:
  "checkBackendServiceHealth (gate_runner ''vm-a'') primary_only fresh_world =
     (Err (UnhealthyCanaryError ''vm-a''), fresh_world) \<and>
   checkBackendServiceHealth (gate_runner ''vm-b'') primary_only fresh_world =
     (Ok (), fresh_world)"
proof -
  have h: "api_GetBackendServiceGroupHealth (computeAPI (gate_runner name))
      (projectID (gate_runner name)) (backend primary_only) (group primary_only) fresh_world =
      (Ok (unhealthy_only name), fresh_world)" for name
    by (simp add: gate_runner_def fake_runner_def fake_api_def)
  have l: "api_GetMIGInstances (computeAPI (gate_runner name)) (projectID (gate_runner name))
      (location (gate_runner name)) (migName (gate_runner name)) fresh_world =
      (Ok sample_listing, fresh_world)" for name
    by (simp add: gate_runner_def fake_runner_def fake_api_def)
  have v: "list_all versioned sample_listing"
    by (simp add: sample_listing_def versioned_def)
  from health_gate [OF h l v, of "''vm-a''"] health_gate [OF h l v, of "''vm-b''"]
  show ?thesis
    by (simp add: sample_listing_def unhealthy_only_def canary_instance_def
        marked_unhealthy_def primary_only_def sample_fleet_def)
qed

subsection \<open>The stability waiter\<close>

lemma fake_fetch:
  "api_GetMIG (computeAPI (fake_runner script health instances)) p l n w =
     (script (fetches w), w\<lparr>fetches := Suc (fetches w)\<rparr>)"
  by (simp add: fake_runner_def fake_api_def)

lemma fake_sleep:
  "sleepFunc (fake_runner script health instances) d w = w\<lparr>sleeps := Suc (sleeps w)\<rparr>"
  by (simp add: fake_runner_def)

lemma unsettledE:
  assumes "unsettled res"
  obtains g where "res = Ok g" and "stable_and_reached g = Ok False"
  using assms by (auto simp: unsettled_def split: result.splits)

lemma wait_loop_settles:
  "ticks + k < maxTicks \<Longrightarrow> \<forall>i<k. unsettled (script (fetches w + i)) \<Longrightarrow>
   script (fetches w + k) = Ok refreshed \<Longrightarrow> stable_and_reached refreshed = Ok True \<Longrightarrow>
   wait_loop (fake_runner script health instances) info ticks w =
     (Ok \<lparr>group = refreshed, template = template info, backend = backend info\<rparr>,
      w\<lparr>fetches := fetches w + Suc k, sleeps := sleeps w + k\<rparr>)"
proof (induction k arbitrary: ticks w)
  case 0
  then show ?case
    by (subst wait_loop.simps) (simp add: fake_fetch)
next
  case (Suc k)
  from Suc.prems(2) have "unsettled (script (fetches w + 0))" by blast
  then obtain g where g: "script (fetches w) = Ok g" "stable_and_reached g = Ok False"
    by (auto elim: unsettledE)
  let ?w = "w\<lparr>fetches := Suc (fetches w), sleeps := Suc (sleeps w)\<rparr>"
  from Suc.prems have step: "Suc ticks + k < maxTicks" by simp
  from Suc.prems(2) have rest: "\<forall>i<k. unsettled (script (fetches ?w + i))"
    by (auto dest: spec [where x = "Suc i" for i])
  from Suc.prems(3) have last: "script (fetches ?w + k) = Ok refreshed" by simp
  from Suc.IH [OF step rest last Suc.prems(4)] g Suc.prems(1)
  show ?case
    by (subst wait_loop.simps) (simp add: fake_fetch fake_sleep)
qed

lemma wait_loop_times_out:
  "n = maxTicks - ticks \<Longrightarrow> ticks \<le> maxTicks \<Longrightarrow>
   \<forall>i<n. unsettled (script (fetches w + i)) \<Longrightarrow>
   wait_loop (fake_runner script health instances) info ticks w =
     (Err (StabilityTimeoutError maxTicks),
      w\<lparr>fetches := fetches w + n, sleeps := sleeps w + n\<rparr>)"
proof (induction n arbitrary: ticks w)
  case 0
  then show ?case
    by (subst wait_loop.simps) simp
next
  case (Suc n)
  from Suc.prems(3) have "unsettled (script (fetches w + 0))" by blast
  then obtain g where g: "script (fetches w) = Ok g" "stable_and_reached g = Ok False"
    by (auto elim: unsettledE)
  let ?w = "w\<lparr>fetches := Suc (fetches w), sleeps := Suc (sleeps w)\<rparr>"
  from Suc.prems have step: "n = maxTicks - Suc ticks" "Suc ticks \<le> maxTicks" by simp_all
  from Suc.prems(3) have rest: "\<forall>i<n. unsettled (script (fetches ?w + i))"
    by (auto dest: spec [where x = "Suc i" for i])
  from Suc.IH [OF step rest] g Suc.prems(1)
  show ?case
    by (subst wait_loop.simps) (simp add: fake_fetch fake_sleep)
qed

text \<open>
  C4. Against the adapter double, from a state \<open>w\<close>: if the next \<open>k < 60\<close> fetches are
  unsettled and the one after them returns a fleet that is stable with its version target
  reached, the waiter returns that fleet (with the template and backend it was given)
  after \<open>k + 1\<close> fetches and \<open>k\<close> sleeps. If the next 60 fetches are all unsettled, it
  fails with the stability-timeout error after 60 fetches: there is no 61st.
\<close>

theorem waitUntilStable_polls:
  "(k < 60 \<and> (\<forall>i<k. unsettled (script (fetches w + i))) \<and>
    script (fetches w + k) = Ok refreshed \<and> stable_and_reached refreshed = Ok True \<longrightarrow>
      waitUntilStable (fake_runner script health instances) info w =
        (Ok \<lparr>group = refreshed, template = template info, backend = backend info\<rparr>,
         w\<lparr>fetches := fetches w + (k + 1), sleeps := sleeps w + k\<rparr>)) \<and>
   ((\<forall>i<60. unsettled (script (fetches w + i))) \<longrightarrow>
      waitUntilStable (fake_runner script health instances) info w =
        (Err (StabilityTimeoutError 60),
         w\<lparr>fetches := fetches w + 60, sleeps := sleeps w + 60\<rparr>))"
proof (intro conjI impI)
  assume "k < 60 \<and> (\<forall>i<k. unsettled (script (fetches w + i))) \<and>
    script (fetches w + k) = Ok refreshed \<and> stable_and_reached refreshed = Ok True"
  then show "waitUntilStable (fake_runner script health instances) info w =
        (Ok \<lparr>group = refreshed, template = template info, backend = backend info\<rparr>,
         w\<lparr>fetches := fetches w + (k + 1), sleeps := sleeps w + k\<rparr>)"
    using wait_loop_settles [of 0 k script w refreshed health instances info]
    by (simp add: waitUntilStable_def maxTicks_def)
next
  assume "\<forall>i<60. unsettled (script (fetches w + i))"
  then show "waitUntilStable (fake_runner script health instances) info w =
        (Err (StabilityTimeoutError 60),
         w\<lparr>fetches := fetches w + 60, sleeps := sleeps w + 60\<rparr>)"
    using wait_loop_times_out [of 60 0 script w health instances info]
    by (simp add: waitUntilStable_def maxTicks_def)
qed

theorem waitUntilStable_polls_witness:
  "waitUntilStable (fake_runner (stable_after 3) (Err NotFoundError) (Err NotFoundError))
     primary_only fresh_world =
     (Ok \<lparr>group = settled_group, template = template primary_only,
          backend = backend primary_only\<rparr>,
      fresh_world\<lparr>fetches := 4, sleeps := 3\<rparr>) \<and>
   waitUntilStable (fake_runner (stable_after 60) (Err NotFoundError) (Err NotFoundError))
     primary_only fresh_world =
     (Err (StabilityTimeoutError 60), fresh_world\<lparr>fetches := 60, sleeps := 60\<rparr>)"
proof -
  have settled: "stable_and_reached settled_group = Ok True"
    by (simp add: stable_and_reached_def settled_group_def empty_group_def)
  have unstable: "unsettled (stable_after k (fetches fresh_world + i))" if "i < k" for i k
    using that
    by (simp add: unsettled_def stable_after_def stable_and_reached_def unstable_group_def
        empty_group_def fresh_world_def)
  have first: "(3::nat) < 60 \<and> (\<forall>i<3. unsettled (stable_after 3 (fetches fresh_world + i))) \<and>
    stable_after 3 (fetches fresh_world + 3) = Ok settled_group \<and>
    stable_and_reached settled_group = Ok True"
    using settled unstable by (simp add: stable_after_def fresh_world_def)
  have second: "\<forall>i<60. unsettled (stable_after 60 (fetches fresh_world + i))"
    using unstable by simp
  from first second
    waitUntilStable_polls [of 3 "stable_after 3" fresh_world settled_group
      "Err NotFoundError" "Err NotFoundError" primary_only]
    waitUntilStable_polls [of _ "stable_after 60" fresh_world _
      "Err NotFoundError" "Err NotFoundError" primary_only]
  show ?thesis by (simp add: fresh_world_def)
qed

subsection \<open>Successive invocations of scale\<close>

lemma provider_getInfo: "getInfo (provider_runner T) w = (Ok (snapshot_of T w), w)"
  by (simp add: getInfo_def provider_runner_def provider_api_def snapshot_of_def)

lemma provider_Start: "Start (provider_runner T) w = rollout_loop (provider_runner T) (snapshot_of T w) w"
  by (simp add: Start_def provider_getInfo)

lemma provider_scale:
  "scale_plan (snapshot_of T w) = Ok plan \<Longrightarrow>
   scale (provider_runner T) (snapshot_of T w) w = (Ok (), apply_patch (plan_patch plan) w)"
  by (simp add: scale_def provider_runner_def provider_api_def)

lemma provider_wait:
  "waitUntilStable (provider_runner T) (snapshot_of T w0) w = (Ok (snapshot_of T w), w)"
  unfolding waitUntilStable_def
  by (subst wait_loop.simps)
    (simp add: provider_runner_def provider_api_def snapshot_of_def maxTicks_def
      stable_and_reached_def observed_def)

lemma provider_health:
  "checkBackendServiceHealth (provider_runner T) info w = (Ok (), w)"
  by (simp add: checkBackendServiceHealth_def provider_runner_def provider_api_def)

lemma provider_iteration:
  assumes "scale_plan (snapshot_of T w) = Ok plan"
  shows "rollout_loop (provider_runner T) (snapshot_of T w) w =
     (if isDone (snapshot_of T (apply_patch (plan_patch plan) w))
      then Some (Ok (), apply_patch (plan_patch plan) w)
      else rollout_loop (provider_runner T)
             (snapshot_of T (apply_patch (plan_patch plan) w))
             (apply_patch (plan_patch plan) w))"
  by (subst rollout_loop.simps)
    (simp add: provider_scale [OF assms] provider_wait provider_health)

lemma scale_plan_one_primary:
  assumes sz: "list_all sized (filter (runs_target (template_SelfLink (template info)))
        (Versions (group info)))"
    and one: "filter (primary_candidate (template_SelfLink (template info)))
        (Versions (group info)) = [pv]"
    and named: "InstanceTemplate pv \<noteq> ''''"
    and policy: "mig_DistributionPolicy (group info) = Some policy"
  shows "\<exists>plan. scale_plan info = Ok plan \<and>
     plan_primaryTemplate plan = InstanceTemplate pv \<and>
     plan_oldCanarySize plan =
       canary_after (template_SelfLink (template info)) (Versions (group info)) 0"
proof -
  from scan_one_candidate [OF sz one named, of 0]
  have "scale_plan info =
      build_plan info (InstanceTemplate pv)
        (canary_after (template_SelfLink (template info)) (Versions (group info)) 0)"
    by (simp add: scale_plan_def)
  with named policy show ?thesis
    by (simp add: build_plan_def Let_def)
qed

lemma canary_after_at_most_one:
  assumes "filter (runs_target T) vs = canaries" and "length canaries \<le> 1"
    and "list_all (\<lambda>c. 0 \<le> sint (fixed_size c)) canaries"
  shows "canary_after T vs 0 = (case canaries of [] \<Rightarrow> 0 | c # cs \<Rightarrow> fixed_size c)"
proof (cases canaries)
  case Nil
  with assms(1) show ?thesis by (simp add: canary_after_no_target)
next
  case (Cons c cs)
  with assms(2) have cs: "cs = []" by simp
  from assms(3) Cons have "0 \<le> sint (fixed_size c)" by simp
  then have "\<not> 0 < sint (fixed_size c) \<Longrightarrow> fixed_size c = 0"
    by (simp add: signed_eq_0_iff)
  with assms(1) Cons cs show ?thesis
    by (auto simp: canary_after_one_target)
qed

lemma pow2_64_nonzero: "n < 63 \<Longrightarrow> (2::64 word) ^ n \<noteq> 0"
proof
  assume "n < 63" and "(2::64 word) ^ n = 0"
  with sint_pow2_64 [of n] show False by simp
qed

lemma stage_scan:
  assumes "primary_candidate T pv" and "InstanceTemplate pv \<noteq> ''''" and "j \<le> 62"
  shows "scan_versions T (stage_versions pv T j) ('''', 0) =
     Ok (InstanceTemplate pv, if j = 0 then 0 else 2 ^ (j - 1))"
proof (cases j)
  case 0
  with assms show ?thesis
    by (simp add: stage_versions_def primary_candidate_def)
next
  case (Suc i)
  with assms(3) have "i < 63" by simp
  from sint_pow2_64 [OF this] have "0 < sint ((2::64 word) ^ i)" by simp
  with Suc assms(1,2) show ?thesis
    by (simp add: stage_versions_def split_versions_def primary_candidate_def)
qed

lemma stage_double:
  assumes "j \<le> 62"
  shows "double_canary (if j = 0 then 0 else 2 ^ (j - 1)) = 2 ^ j"
proof (cases j)
  case 0
  then show ?thesis by (simp add: double_canary_def)
next
  case (Suc i)
  with assms have "i < 63" by simp
  from pow2_64_nonzero [OF this] Suc show ?thesis
    by (simp add: double_canary_def)
qed

lemma stage_plan:
  assumes pc: "primary_candidate T pv" and named: "InstanceTemplate pv \<noteq> ''''"
    and j: "j \<le> 62"
    and vs: "Versions (fleet w) = stage_versions pv T j"
    and policy: "mig_DistributionPolicy (fleet w) = Some policy"
  shows "\<exists>plan. scale_plan (snapshot_of T w) = Ok plan \<and>
     plan_oldCanarySize plan = (if j = 0 then 0 else 2 ^ (j - 1)) \<and>
     plan_newCanarySize plan =
       (if sint (mig_TargetSize (fleet w)) \<le> 2 ^ j then mig_TargetSize (fleet w) else 2 ^ j) \<and>
     Versions (plan_patch plan) =
       (if sint (mig_TargetSize (fleet w)) \<le> 2 ^ j then collapsed_versions T
        else split_versions (InstanceTemplate pv) T (2 ^ j))"
proof -
  from j have "j < 63" by simp
  note s = sint_pow2_64 [OF this]
  from stage_scan [OF pc named j] vs
  have "scale_plan (snapshot_of T w) =
      build_plan (snapshot_of T w) (InstanceTemplate pv) (if j = 0 then 0 else 2 ^ (j - 1))"
    by (simp add: scale_plan_def snapshot_of_def observed_def)
  with named policy stage_double [OF j] s show ?thesis
    by (simp add: build_plan_def Let_def snapshot_of_def observed_def make_patch_def)
qed

lemma stage_next:
  "Versions (fleet (apply_patch patch w)) = Versions patch"
  "mig_TargetSize (fleet (apply_patch patch w)) = mig_TargetSize (fleet w)"
  "mig_DistributionPolicy (fleet (apply_patch patch w)) = mig_DistributionPolicy (fleet w)"
  "applied (apply_patch patch w) = applied w @ [patch]"
  by (simp_all add: apply_patch_def)

lemma isDone_snapshot:
  "isDone (snapshot_of T w) =
     (\<exists>v. Versions (fleet w) = [v] \<and> InstanceTemplate v = T)"
  by (auto simp: isDone_def snapshot_of_def observed_def split: list.splits)

lemma rollout_from_stage:
  assumes pc: "primary_candidate T pv" and named: "InstanceTemplate pv \<noteq> ''''"
    and m: "m \<le> 62" and below: "\<forall>k<m. 2 ^ k < sint N" and cap: "sint N \<le> 2 ^ m"
  shows "j \<le> m \<Longrightarrow> Versions (fleet w) = stage_versions pv T j \<Longrightarrow>
    mig_TargetSize (fleet w) = N \<Longrightarrow> mig_DistributionPolicy (fleet w) = Some policy \<Longrightarrow>
    \<exists>w'. rollout_loop (provider_runner T) (snapshot_of T w) w = Some (Ok (), w') \<and>
      map Versions (applied w') =
        map Versions (applied w) @
        map (\<lambda>k. split_versions (InstanceTemplate pv) T (2 ^ k)) [j..<m] @
        [collapsed_versions T] \<and>
      isDone (snapshot_of T w')"
proof (induction "m - j" arbitrary: j w)
  case 0
  then have jm: "j = m" by simp
  from m jm have j62: "j \<le> 62" by simp
  from stage_plan [OF pc named j62 "0.prems"(2) "0.prems"(4)] "0.prems"(3) cap jm
  obtain plan where plan: "scale_plan (snapshot_of T w) = Ok plan"
    and vs: "Versions (plan_patch plan) = collapsed_versions T"
    by auto
  have finished: "isDone (snapshot_of T (apply_patch (plan_patch plan) w))"
    by (simp add: isDone_snapshot stage_next vs collapsed_versions_def)
  from provider_iteration [OF plan] finished jm vs show ?case
    by (simp add: stage_next)
next
  case (Suc d)
  then have jm: "j < m" by simp
  with m have j62: "j \<le> 62" by simp
  from below jm have "\<not> sint N \<le> 2 ^ j" by (simp add: not_le)
  with stage_plan [OF pc named j62 Suc.prems(2) Suc.prems(4)] Suc.prems(3)
  obtain plan where plan: "scale_plan (snapshot_of T w) = Ok plan"
    and vs: "Versions (plan_patch plan) = split_versions (InstanceTemplate pv) T (2 ^ j)"
    by auto
  let ?w = "apply_patch (plan_patch plan) w"
  have notdone: "\<not> isDone (snapshot_of T ?w)"
    by (simp add: isDone_snapshot stage_next vs split_versions_def)
  have d: "d = m - Suc j" using Suc.hyps(2) by simp
  have next_vs: "Versions (fleet ?w) = stage_versions pv T (Suc j)"
    by (simp add: stage_next vs stage_versions_def)
  from Suc.hyps(1) [OF d _ next_vs] jm Suc.prems(3,4)
  obtain w' where loop: "rollout_loop (provider_runner T) (snapshot_of T ?w) ?w = Some (Ok (), w')"
    and log: "map Versions (applied w') =
        map Versions (applied ?w) @
        map (\<lambda>k. split_versions (InstanceTemplate pv) T (2 ^ k)) [Suc j..<m] @
        [collapsed_versions T]"
    and fin: "isDone (snapshot_of T w')"
    by (auto simp: stage_next)
  from provider_iteration [OF plan] notdone loop
  have "rollout_loop (provider_runner T) (snapshot_of T w) w = Some (Ok (), w')" by simp
  moreover from log vs jm have "map Versions (applied w') =
        map Versions (applied w) @
        map (\<lambda>k. split_versions (InstanceTemplate pv) T (2 ^ k)) [j..<m] @
        [collapsed_versions T]"
    by (simp add: stage_next upt_conv_Cons)
  ultimately show ?case using fin by blast
qed

text \<open>Every target size up to \<open>2 ^ 62\<close> has its first exponent \<open>m\<close>, at most 62.\<close>

lemma cap_exists:
  assumes "sint (N::64 word) \<le> 2 ^ 62"
  shows "\<exists>m\<le>62. (\<forall>k<m. 2 ^ k < sint N) \<and> sint N \<le> 2 ^ m"
proof -
  define m where "m = (LEAST m. sint N \<le> 2 ^ m)"
  from assms have cap: "sint N \<le> 2 ^ m"
    unfolding m_def by (rule LeastI)
  from assms have "m \<le> 62" unfolding m_def by (rule Least_le)
  moreover have "2 ^ k < sint N" if "k < m" for k
  proof (rule ccontr)
    assume "\<not> 2 ^ k < sint N"
    then have "sint N \<le> 2 ^ k" by simp
    then have "m \<le> k" unfolding m_def by (rule Least_le)
    with that show False by simp
  qed
  ultimately show ?thesis using cap by blast
qed

text \<open>At \<open>2 ^ 62\<close> the doubling leaves \<^verbatim>\<open>int64\<close>: it wraps to the least value.\<close>

lemma double_canary_wraps: "sint (double_canary (2 ^ 62)) = - (2 ^ 63)"
  by (simp add: double_canary_def)

text \<open>
  C1. The plan of \<^verbatim>\<open>scale\<close> is a function of the snapshot alone, and \<^verbatim>\<open>scale\<close> hands
  the plan's patch to the adapter. On a snapshot with exactly one primary version (one
  version that neither runs the target template nor is tagged canary), a distribution
  policy, and at most one version running the target template, with a fixed size that is
  not negative: the old canary size is that fixed size, 0 when no version runs the target
  template; the new canary size is 1 when the old one is 0 and twice the old one
  otherwise (\<^verbatim>\<open>int64\<close> arithmetic); when it reaches the fleet's target size it is clamped
  to it and the patch has the single version running the target template; otherwise the
  patch has exactly the primary (its template, no size) and the canary (target template,
  the new fixed size).

  Hence the whole rollout, on a provider where stability and health always pass, from a
  fleet with the primary alone and target size \<open>N\<close>, where \<open>m\<close> is the first exponent
  with \<open>N \<le> 2 ^ m\<close> and \<open>m \<le> 62\<close> (so that no doubling leaves \<^verbatim>\<open>int64\<close>): \<^verbatim>\<open>Start\<close>
  returns without error after patches with canary sizes 1, 2, 4, ..., \<open>2 ^ (m - 1)\<close> and
  a last patch with the single version running the target template, on which the
  done-check holds.
\<close>

theorem scale_postcondition:
  "(template_SelfLink (template info) = T \<and> Versions (group info) = vs \<and>
    mig_TargetSize (group info) = N \<and> mig_DistributionPolicy (group info) = Some policy \<and>
    filter (primary_candidate T) vs = [pv] \<and> InstanceTemplate pv \<noteq> '''' \<and>
    filter (runs_target T) vs = canaries \<and> length canaries \<le> 1 \<and>
    list_all sized canaries \<and> list_all (\<lambda>c. 0 \<le> sint (fixed_size c)) canaries \<and>
    old = (case canaries of [] \<Rightarrow> 0 | c # cs \<Rightarrow> fixed_size c) \<and>
    new = (if old = 0 then 1 else 2 * old) \<longrightarrow>
    (\<exists>plan.
       scale_plan info = Ok plan \<and>
       scale r info w =
         (case api_PatchMIG (computeAPI r) (projectID r) (location r) (migName r)
                 (plan_patch plan) w of
            (Err e, w') \<Rightarrow>
              (Err (Wrapped ''error updating instance templates in instance group'' e), w')
          | (other, w') \<Rightarrow> (other, w')) \<and>
       plan_oldCanarySize plan = old \<and>
       plan_newCanarySize plan = (if sint N \<le> sint new then N else new) \<and>
       Versions (plan_patch plan) =
         (if sint N \<le> sint new
          then [\<lparr>Name = '''', InstanceTemplate = T, TargetSize = None\<rparr>]
          else [\<lparr>Name = '''', InstanceTemplate = InstanceTemplate pv, TargetSize = None\<rparr>,
                \<lparr>Name = ''canary'', InstanceTemplate = T,
                 TargetSize = Some \<lparr>Fixed = new, Percent = 0\<rparr>\<rparr>]))) \<and>
   (primary_candidate T0 pv0 \<and> InstanceTemplate pv0 \<noteq> '''' \<and>
    Versions (fleet w0) = [pv0] \<and> mig_TargetSize (fleet w0) = N0 \<and>
    mig_DistributionPolicy (fleet w0) = Some policy0 \<and>
    m \<le> 62 \<and> (\<forall>k<m. 2 ^ k < sint N0) \<and> sint N0 \<le> 2 ^ m \<longrightarrow>
    (\<exists>w'. Start (provider_runner T0) w0 = Some (Ok (), w') \<and>
       map Versions (applied w') =
         map Versions (applied w0) @
         map (\<lambda>k. [\<lparr>Name = '''', InstanceTemplate = InstanceTemplate pv0, TargetSize = None\<rparr>,
                    \<lparr>Name = ''canary'', InstanceTemplate = T0,
                     TargetSize = Some \<lparr>Fixed = 2 ^ k, Percent = 0\<rparr>\<rparr>]) [0..<m] @
         [[\<lparr>Name = '''', InstanceTemplate = T0, TargetSize = None\<rparr>]] \<and>
       isDone (snapshot_of T0 w')))"
proof (intro conjI impI)
  assume h: "template_SelfLink (template info) = T \<and> Versions (group info) = vs \<and>
    mig_TargetSize (group info) = N \<and> mig_DistributionPolicy (group info) = Some policy \<and>
    filter (primary_candidate T) vs = [pv] \<and> InstanceTemplate pv \<noteq> '''' \<and>
    filter (runs_target T) vs = canaries \<and> length canaries \<le> 1 \<and>
    list_all sized canaries \<and> list_all (\<lambda>c. 0 \<le> sint (fixed_size c)) canaries \<and>
    old = (case canaries of [] \<Rightarrow> 0 | c # cs \<Rightarrow> fixed_size c) \<and>
    new = (if old = 0 then 1 else 2 * old)"
  then have sz: "list_all sized (filter (runs_target (template_SelfLink (template info)))
        (Versions (group info)))"
    and one: "filter (primary_candidate (template_SelfLink (template info)))
        (Versions (group info)) = [pv]"
    and named: "InstanceTemplate pv \<noteq> ''''"
    and policy: "mig_DistributionPolicy (group info) = Some policy"
    by simp_all
  from scale_plan_one_primary [OF sz one named policy]
  obtain plan where plan: "scale_plan info = Ok plan"
    and prim: "plan_primaryTemplate plan = InstanceTemplate pv"
    and old': "plan_oldCanarySize plan =
       canary_after (template_SelfLink (template info)) (Versions (group info)) 0"
    by blast
  from h have "canary_after T vs 0 = (case canaries of [] \<Rightarrow> 0 | c # cs \<Rightarrow> fixed_size c)"
    by (intro canary_after_at_most_one) simp_all
  with h old' have old: "plan_oldCanarySize plan = old" by simp
  from h have new: "double_canary old = new"
    by (simp add: double_canary_def mult.commute)
  from plan have run: "scale r info w =
         (case api_PatchMIG (computeAPI r) (projectID r) (location r) (migName r)
                 (plan_patch plan) w of
            (Err e, w') \<Rightarrow>
              (Err (Wrapped ''error updating instance templates in instance group'' e), w')
          | (other, w') \<Rightarrow> (other, w'))"
    by (simp add: scale_def)
  from scale_plan_shape [OF plan] old new prim h
  have "plan_newCanarySize plan = (if sint N \<le> sint new then N else new) \<and>
       Versions (plan_patch plan) =
         (if sint N \<le> sint new
          then [\<lparr>Name = '''', InstanceTemplate = T, TargetSize = None\<rparr>]
          else [\<lparr>Name = '''', InstanceTemplate = InstanceTemplate pv, TargetSize = None\<rparr>,
                \<lparr>Name = ''canary'', InstanceTemplate = T,
                 TargetSize = Some \<lparr>Fixed = new, Percent = 0\<rparr>\<rparr>])"
    by (simp add: collapsed_versions_def split_versions_def)
  with plan run old show "\<exists>plan.
       scale_plan info = Ok plan \<and>
       scale r info w =
         (case api_PatchMIG (computeAPI r) (projectID r) (location r) (migName r)
                 (plan_patch plan) w of
            (Err e, w') \<Rightarrow>
              (Err (Wrapped ''error updating instance templates in instance group'' e), w')
          | (other, w') \<Rightarrow> (other, w')) \<and>
       plan_oldCanarySize plan = old \<and>
       plan_newCanarySize plan = (if sint N \<le> sint new then N else new) \<and>
       Versions (plan_patch plan) =
         (if sint N \<le> sint new
          then [\<lparr>Name = '''', InstanceTemplate = T, TargetSize = None\<rparr>]
          else [\<lparr>Name = '''', InstanceTemplate = InstanceTemplate pv, TargetSize = None\<rparr>,
                \<lparr>Name = ''canary'', InstanceTemplate = T,
                 TargetSize = Some \<lparr>Fixed = new, Percent = 0\<rparr>\<rparr>])"
    by blast
next
  assume h: "primary_candidate T0 pv0 \<and> InstanceTemplate pv0 \<noteq> '''' \<and>
    Versions (fleet w0) = [pv0] \<and> mig_TargetSize (fleet w0) = N0 \<and>
    mig_DistributionPolicy (fleet w0) = Some policy0 \<and>
    m \<le> 62 \<and> (\<forall>k<m. 2 ^ k < sint N0) \<and> sint N0 \<le> 2 ^ m"
  then have pc: "primary_candidate T0 pv0" and named: "InstanceTemplate pv0 \<noteq> ''''"
    and m: "m \<le> 62" and below: "\<forall>k<m. 2 ^ k < sint N0" and cap: "sint N0 \<le> 2 ^ m"
    and vs: "Versions (fleet w0) = stage_versions pv0 T0 0"
    and size: "mig_TargetSize (fleet w0) = N0"
    and policy: "mig_DistributionPolicy (fleet w0) = Some policy0"
    by (simp_all add: stage_versions_def)
  from rollout_from_stage [OF pc named m below cap _ vs size policy]
  show "\<exists>w'. Start (provider_runner T0) w0 = Some (Ok (), w') \<and>
       map Versions (applied w') =
         map Versions (applied w0) @
         map (\<lambda>k. [\<lparr>Name = '''', InstanceTemplate = InstanceTemplate pv0, TargetSize = None\<rparr>,
                    \<lparr>Name = ''canary'', InstanceTemplate = T0,
                     TargetSize = Some \<lparr>Fixed = 2 ^ k, Percent = 0\<rparr>\<rparr>]) [0..<m] @
         [[\<lparr>Name = '''', InstanceTemplate = T0, TargetSize = None\<rparr>]] \<and>
       isDone (snapshot_of T0 w')"
    by (simp add: provider_Start collapsed_versions_def split_versions_def)
qed

theorem scale_postcondition_witness:
  "(\<exists>plan. scale_plan canary_running = Ok plan \<and>
      plan_oldCanarySize plan = 1 \<and> plan_newCanarySize plan = 2 \<and>
      Versions (plan_patch plan) =
        [\<lparr>Name = '''', InstanceTemplate = ''old'', TargetSize = None\<rparr>,
         \<lparr>Name = ''canary'', InstanceTemplate = ''new'',
          TargetSize = Some \<lparr>Fixed = 2, Percent = 0\<rparr>\<rparr>]) \<and>
   (\<exists>w'. Start (provider_runner ''new'') fleet_of_ten = Some (Ok (), w') \<and>
      map Versions (applied w') =
        [split_versions ''old'' ''new'' 1, split_versions ''old'' ''new'' 2,
         split_versions ''old'' ''new'' 4, split_versions ''old'' ''new'' 8,
         collapsed_versions ''new''])"
proof -
  let ?pv = "\<lparr>Name = '''', InstanceTemplate = ''old'', TargetSize = None\<rparr>"
  let ?cv = "\<lparr>Name = ''canary'', InstanceTemplate = ''new'',
         TargetSize = Some \<lparr>Fixed = 1, Percent = 0\<rparr>\<rparr>"
  have a: "template_SelfLink (template canary_running) = ''new'' \<and>
    Versions (group canary_running) = [?pv, ?cv] \<and>
    mig_TargetSize (group canary_running) = 4 \<and>
    mig_DistributionPolicy (group canary_running) = Some \<lparr>Zones = [''a'', ''b'', ''c'']\<rparr> \<and>
    filter (primary_candidate ''new'') [?pv, ?cv] = [?pv] \<and> InstanceTemplate ?pv \<noteq> '''' \<and>
    filter (runs_target ''new'') [?pv, ?cv] = [?cv] \<and> length [?cv] \<le> 1 \<and>
    list_all sized [?cv] \<and> list_all (\<lambda>c. 0 \<le> sint (fixed_size c)) [?cv] \<and>
    (1::int64) = (case [?cv] of [] \<Rightarrow> 0 | c # cs \<Rightarrow> fixed_size c) \<and>
    (2::int64) = (if (1::int64) = 0 then 1 else 2 * 1)"
    by (simp add: canary_running_def sample_fleet_def empty_group_def primary_candidate_def
        runs_target_def sized_def fixed_size_def)
  have below: "\<forall>k<4. (2::int) ^ k < sint (10::int64)"
  proof (intro allI impI)
    fix k :: nat
    assume "k < 4"
    then have "k \<le> 3" by simp
    then have "(2::int) ^ k \<le> 2 ^ 3" by (intro power_increasing) simp_all
    then show "(2::int) ^ k < sint (10::int64)" by simp
  qed
  have c: "primary_candidate ''new'' ?pv \<and> InstanceTemplate ?pv \<noteq> '''' \<and>
    Versions (fleet fleet_of_ten) = [?pv] \<and> mig_TargetSize (fleet fleet_of_ten) = 10 \<and>
    mig_DistributionPolicy (fleet fleet_of_ten) = Some \<lparr>Zones = [''a'', ''b'', ''c'']\<rparr> \<and>
    (4::nat) \<le> 62 \<and> (\<forall>k<4. (2::int) ^ k < sint (10::int64)) \<and> sint (10::int64) \<le> 2 ^ 4"
    using below
    by (simp add: fleet_of_ten_def empty_group_def primary_candidate_def)
  have upt4: "[0..<4] = [0, 1, 2, 3]" by (simp add: upt_rec)
  note inst = scale_postcondition [of canary_running "''new''" "[?pv, ?cv]" 4
      "\<lparr>Zones = [''a'', ''b'', ''c'']\<rparr>" ?pv "[?cv]" 1 2 idle_runner fresh_world
      "''new''" ?pv fleet_of_ten 10 "\<lparr>Zones = [''a'', ''b'', ''c'']\<rparr>" 4]
  from inst [THEN conjunct1, THEN mp, OF a]
  obtain plan where p: "scale_plan canary_running = Ok plan"
    "plan_oldCanarySize plan = 1" "plan_newCanarySize plan = 2"
    "Versions (plan_patch plan) =
        [\<lparr>Name = '''', InstanceTemplate = ''old'', TargetSize = None\<rparr>,
         \<lparr>Name = ''canary'', InstanceTemplate = ''new'',
          TargetSize = Some \<lparr>Fixed = 2, Percent = 0\<rparr>\<rparr>]"
    by auto
  from inst [THEN conjunct2, THEN mp, OF c]
  obtain w' where w: "Start (provider_runner ''new'') fleet_of_ten = Some (Ok (), w')"
    "map Versions (applied w') =
        [split_versions ''old'' ''new'' 1, split_versions ''old'' ''new'' 2,
         split_versions ''old'' ''new'' 4, split_versions ''old'' ''new'' 8,
         collapsed_versions ''new'']"
    by (auto simp: upt4 split_versions_def collapsed_versions_def fleet_of_ten_def)
  have first: "\<exists>plan. scale_plan canary_running = Ok plan \<and>
      plan_oldCanarySize plan = 1 \<and> plan_newCanarySize plan = 2 \<and>
      Versions (plan_patch plan) =
        [\<lparr>Name = '''', InstanceTemplate = ''old'', TargetSize = None\<rparr>,
         \<lparr>Name = ''canary'', InstanceTemplate = ''new'',
          TargetSize = Some \<lparr>Fixed = 2, Percent = 0\<rparr>\<rparr>]"
    using p by (intro exI [of _ plan]) simp
  have second: "\<exists>w'. Start (provider_runner ''new'') fleet_of_ten = Some (Ok (), w') \<and>
      map Versions (applied w') =
        [split_versions ''old'' ''new'' 1, split_versions ''old'' ''new'' 2,
         split_versions ''old'' ''new'' 4, split_versions ''old'' ''new'' 8,
         collapsed_versions ''new'']"
    using w by (intro exI [of _ w']) simp
  from first second show ?thesis by (rule conjI)
qed

end
